theory Spec2Isabelle
  imports Main "HOL-Library.Sublist"
begin

section \<open>JavaScript strings\<close>

text \<open>
  A JavaScript string is a sequence of UTF-16 code units.  The model uses \<^typ>\<open>string\<close>:
  one \<^typ>\<open>char\<close> stands for one code unit below 256.  Every literal of
  \<^verbatim>\<open>scripts/get-changed-tests.mjs\<close> is ASCII, and \<^verbatim>\<open>git diff --name-only\<close> quotes
  the bytes above 0x80 of a path by default, so this covers the strings the script meets.
\<close>

text \<open>\<^verbatim>\<open>String.prototype.startsWith\<close>.\<close>

fun startsWith :: "string \<Rightarrow> string \<Rightarrow> bool" where
  "startsWith s [] = True"
| "startsWith [] (p # ps) = False"
| "startsWith (c # cs) (p # ps) = (c = p \<and> startsWith cs ps)"

text \<open>\<^verbatim>\<open>String.prototype.includes\<close>: the needle occurs at some position of the string.\<close>

fun includes_str :: "string \<Rightarrow> string \<Rightarrow> bool" where
  "includes_str [] n = (n = [])"
| "includes_str (c # cs) n = (startsWith (c # cs) n \<or> includes_str cs n)"

text \<open>
  \<^verbatim>\<open>String.prototype.trim\<close> removes white space and line terminators from both ends.
  Below 256 these are TAB, LF, VT, FF, CR, SP and NBSP.
\<close>

definition isWhiteSpace :: "char \<Rightarrow> bool" where
  "isWhiteSpace c =
     (c = CHR 0x09 \<or> c = CHR 0x0A \<or> c = CHR 0x0B \<or> c = CHR 0x0C \<or> c = CHR 0x0D \<or>
      c = CHR 0x20 \<or> c = CHR 0xA0)"

definition trim :: "string \<Rightarrow> string" where
  "trim s = rev (dropWhile isWhiteSpace (rev (dropWhile isWhiteSpace s)))"

text \<open>
  \<^verbatim>\<open>s.split('\n')\<close>: the pieces between the line feeds; a string with no line feed,
  the empty string too, gives one piece.
\<close>

fun split_lines :: "string \<Rightarrow> string list" where
  "split_lines [] = [[]]"
| "split_lines (c # cs) =
     (if c = CHR 0x0A then [] # split_lines cs
      else (case split_lines cs of
              [] \<Rightarrow> [[c]]
            | l # ls \<Rightarrow> (c # l) # ls))"

text \<open>\<^verbatim>\<open>file.replace(/\\/g, '/')\<close>: every backslash becomes a forward slash.\<close>

definition normalize_slashes :: "string \<Rightarrow> string" where
  "normalize_slashes file = map (\<lambda>c. if c = CHR 0x5C then CHR ''/'' else c) file"

section \<open>Regular expressions\<close>

text \<open>
  The fragment of JavaScript regular expressions that the script uses, matched against
  the whole string (the pattern is anchored by \<^verbatim>\<open>^\<close> and \<^verbatim>\<open>$\<close> and has no flags).
  \<open>Dot\<close> is \<^verbatim>\<open>.\<close>, which matches any code unit that is not a line terminator; below
  256 the line terminators are LF and CR.  A lazy star accepts the same strings as a
  greedy one.
\<close>

datatype regex =
    Never
  | Eps
  | Lit char
  | Dot
  | Cat regex regex
  | Alt regex regex
  | Star regex

definition isLineTerminator :: "char \<Rightarrow> bool" where
  "isLineTerminator c = (c = CHR 0x0A \<or> c = CHR 0x0D)"

fun nullable :: "regex \<Rightarrow> bool" where
  "nullable Never = False"
| "nullable Eps = True"
| "nullable (Lit c) = False"
| "nullable Dot = False"
| "nullable (Cat r s) = (nullable r \<and> nullable s)"
| "nullable (Alt r s) = (nullable r \<or> nullable s)"
| "nullable (Star r) = True"

fun deriv :: "char \<Rightarrow> regex \<Rightarrow> regex" where
  "deriv a Never = Never"
| "deriv a Eps = Never"
| "deriv a (Lit c) = (if a = c then Eps else Never)"
| "deriv a Dot = (if isLineTerminator a then Never else Eps)"
| "deriv a (Cat r s) =
     (if nullable r then Alt (Cat (deriv a r) s) (deriv a s) else Cat (deriv a r) s)"
| "deriv a (Alt r s) = Alt (deriv a r) (deriv a s)"
| "deriv a (Star r) = Cat (deriv a r) (Star r)"

fun matches :: "regex \<Rightarrow> string \<Rightarrow> bool" where
  "matches r [] = nullable r"
| "matches r (c # cs) = matches (deriv c r) cs"

text \<open>A literal string as a regular expression.\<close>

fun word :: "string \<Rightarrow> regex" where
  "word [] = Eps"
| "word (c # cs) = Cat (Lit c) (word cs)"

text \<open>The strings a regular expression stands for.\<close>

inductive_set star :: "string set \<Rightarrow> string set" for L :: "string set" where
  star_nil: "[] \<in> star L"
| star_app: "u \<in> L \<Longrightarrow> v \<in> star L \<Longrightarrow> u @ v \<in> star L"

fun lang :: "regex \<Rightarrow> string set" where
  "lang Never = {}"
| "lang Eps = {[]}"
| "lang (Lit c) = {[c]}"
| "lang Dot = {[c] | c. \<not> isLineTerminator c}"
| "lang (Cat r s) = {u @ v | u v. u \<in> lang r \<and> v \<in> lang s}"
| "lang (Alt r s) = lang r \<union> lang s"
| "lang (Star r) = star (lang r)"

text \<open>\<^verbatim>\<open>/^test\/.*?\.test\.(js|ts|tsx)$/\<close>\<close>

definition test_file_regex :: regex where
  "test_file_regex =
     Cat (word ''test/'')
       (Cat (Star Dot)
         (Cat (word ''.test.'')
           (Alt (word ''js'') (Alt (word ''ts'') (word ''tsx'')))))"

text \<open>\<^verbatim>\<open>file.match(/^test\/.*?\.test\.(js|ts|tsx)$/)\<close> is not null.\<close>

definition test_file_match :: "string \<Rightarrow> bool" where
  "test_file_match file = matches test_file_regex file"

section \<open>JavaScript values\<close>

text \<open>
  The values that \<^verbatim>\<open>JSON.parse\<close> and property reads produce.  A \<open>JObj\<close> lists the own
  properties of an object, the first entry for a key being its value.  A number is kept
  as an integer: the script only tests numbers for being zero.
\<close>

datatype jsval =
    JUndefined
  | JNull
  | JBool bool
  | JNum int
  | JStr string
  | JArr "jsval list"
  | JObj "(string \<times> jsval) list"

text \<open>What \<^verbatim>\<open>||\<close> tests: every value is truthy but the falsy ones.\<close>

fun truthy :: "jsval \<Rightarrow> bool" where
  "truthy JUndefined = False"
| "truthy JNull = False"
| "truthy (JBool b) = b"
| "truthy (JNum n) = (n \<noteq> 0)"
| "truthy (JStr s) = (s \<noteq> [])"
| "truthy (JArr xs) = True"
| "truthy (JObj ps) = True"

text \<open>
  \<^verbatim>\<open>v?.key\<close> for the keys the script reads (\<^verbatim>\<open>pull_request\<close>, \<^verbatim>\<open>head\<close>, \<^verbatim>\<open>ref\<close>,
  \<^verbatim>\<open>repo\<close>, \<^verbatim>\<open>full_name\<close>, \<^verbatim>\<open>sha\<close>): none of them is a property of a string, a number,
  a boolean, an array or of \<^verbatim>\<open>Object.prototype\<close>, so only an own property of an object
  gives a value; \<^verbatim>\<open>undefined\<close> and \<^verbatim>\<open>null\<close> short-circuit to \<^verbatim>\<open>undefined\<close>.
\<close>

fun opt_get :: "jsval \<Rightarrow> string \<Rightarrow> jsval" where
  "opt_get (JObj ps) key = (case map_of ps key of Some v \<Rightarrow> v | None \<Rightarrow> JUndefined)"
| "opt_get v key = JUndefined"

section \<open>The world of the script\<close>

text \<open>
  \<^verbatim>\<open>getChangedTests\<close> takes no argument: its input is the process environment, the
  event file, the outcome of the commands it runs and the files on disk.

  \<^item> \<open>process_env\<close>: \<^verbatim>\<open>process.env\<close>, a variable being unset or a string.
  \<^item> \<open>readFile_parse\<close>: the outcome of \<^verbatim>\<open>JSON.parse(await fs.readFile(path, 'utf8'))\<close>.
  \<^item> \<open>execa\<close>: the outcome of \<^verbatim>\<open>await execa(command, opts)\<close>: the promise rejects (the
    command cannot be run or exits with a failure) or resolves with the command's
    output.  The script runs no command twice, so one outcome per command describes a
    run.
  \<^item> \<open>fs_access\<close>: whether \<^verbatim>\<open>fs.access(path.join(process.cwd(), file), F_OK)\<close> resolves;
    the working directory stays the same during a run, so this depends on \<open>file\<close> only.
\<close>

datatype read_result = ReadError | SyntaxError | Parsed jsval

datatype exec_result = Rejected | Resolved string string

record world =
  process_env :: "string \<Rightarrow> string option"
  readFile_parse :: "string \<Rightarrow> read_result"
  execa :: "string \<Rightarrow> exec_result"
  fs_access :: "string \<Rightarrow> bool"

text \<open>What a run does to the outside, in order.\<close>

datatype effect =
    ReadFile string
  | Exec string
  | Access string
  | ConsoleLog
  | ConsoleError

text \<open>What \<^verbatim>\<open>getChangedTests\<close> can throw: the rejection of a command, or a \<^verbatim>\<open>TypeError\<close>.\<close>

datatype error = ExecaError string | TypeError

text \<open>The object that \<^verbatim>\<open>getChangedTests\<close> returns; \<open>commitSha = None\<close>: no such field.\<close>

record changed_tests =
  devTests :: "string list"
  prodTests :: "string list"
  commitSha :: "jsval option"

text \<open>
  A computation gives the effects it had and either the error it threw or its value.
  \<open>and_then\<close> is sequencing: an error ends the run.
\<close>

type_synonym 'a run = "effect list \<times> (error + 'a)"

definition and_then :: "'a run \<Rightarrow> ('a \<Rightarrow> 'b run) \<Rightarrow> 'b run" where
  "and_then m f =
     (case m of
        (t, Inl e) \<Rightarrow> (t, Inl e)
      | (t, Inr a) \<Rightarrow> (case f a of (t', r) \<Rightarrow> (t @ t', r)))"

text \<open>\<^verbatim>\<open>await execa(command, opts)\<close>: the value is \<open>(stdout, stderr)\<close>.\<close>

definition run_execa :: "world \<Rightarrow> string \<Rightarrow> (string \<times> string) run" where
  "run_execa w command =
     ([Exec command],
      case execa w command of
        Rejected \<Rightarrow> Inl (ExecaError command)
      | Resolved out err \<Rightarrow> Inr (out, err))"

section \<open>getChangedTests\<close>

text \<open>
  Lines 12 and 19 to 24: \<open>eventData\<close> starts as \<^verbatim>\<open>{}\<close>; the \<^verbatim>\<open>try\<close> block reads and
  parses the file named by \<^verbatim>\<open>GITHUB_EVENT_PATH || ''\<close> and takes its \<^verbatim>\<open>pull_request\<close>
  property, or \<^verbatim>\<open>{}\<close> when that is falsy.  Reading a property of \<^verbatim>\<open>null\<close> throws, and
  everything thrown in the block is dropped.
\<close>

definition readEventData :: "world \<Rightarrow> jsval run" where
  "readEventData w =
     (let path = (case process_env w ''GITHUB_EVENT_PATH'' of
                    None \<Rightarrow> ''''
                  | Some p \<Rightarrow> p)
      in ([ReadFile path],
          Inr (case readFile_parse w path of
                 ReadError \<Rightarrow> JObj []
               | SyntaxError \<Rightarrow> JObj []
               | Parsed JNull \<Rightarrow> JObj []
               | Parsed JUndefined \<Rightarrow> JObj []
               | Parsed v \<Rightarrow>
                   (let pull_request = opt_get v ''pull_request''
                    in if truthy pull_request then pull_request else JObj []))))"

text \<open>
  \<^verbatim>\<open>field || process.env.VAR || (await execa(command, EXECA_OPTS)).stdout\<close>: the command
  runs only when both values before it are falsy, and its rejection is not caught.
\<close>

definition or_env_or_git :: "world \<Rightarrow> jsval \<Rightarrow> string \<Rightarrow> string \<Rightarrow> jsval run" where
  "or_env_or_git w field var command =
     (let env_value = (case process_env w var of
                         None \<Rightarrow> JUndefined
                       | Some s \<Rightarrow> JStr s)
      in if truthy field then ([], Inr field)
         else if truthy env_value then ([], Inr env_value)
         else and_then (run_execa w command) (\<lambda>(out, err). ([], Inr (JStr out))))"

text \<open>Lines 26 to 39: \<open>branchName\<close>, \<open>remoteUrl\<close> and \<open>commitSha\<close>, in this order.\<close>

definition resolveContext :: "world \<Rightarrow> (jsval \<times> jsval \<times> jsval) run" where
  "resolveContext w =
     and_then (readEventData w) (\<lambda>eventData.
     let head = opt_get eventData ''head'' in
     and_then (or_env_or_git w (opt_get head ''ref'')
                 ''GITHUB_REF_NAME'' ''git rev-parse --abbrev-ref HEAD'') (\<lambda>branchName.
     and_then (or_env_or_git w (opt_get (opt_get head ''repo'') ''full_name'')
                 ''GITHUB_REPOSITORY'' ''git remote get-url origin'') (\<lambda>remoteUrl.
     and_then (or_env_or_git w (opt_get head ''sha'')
                 ''GITHUB_SHA'' ''git rev-parse HEAD'') (\<lambda>commitSha.
     ([], Inr (branchName, remoteUrl, commitSha))))))"

text \<open>
  Lines 41 and 42: \<^verbatim>\<open>branchName.trim() === 'canary' && remoteUrl.includes('vercel/next.js')\<close>.
  Only a string has a \<^verbatim>\<open>trim\<close> method, and only a string and an array have \<^verbatim>\<open>includes\<close>;
  calling what is not a function throws a \<^verbatim>\<open>TypeError\<close>.  \<^verbatim>\<open>&&\<close> does not evaluate its
  right side when the left one is false.
\<close>

definition isCanary :: "jsval \<Rightarrow> jsval \<Rightarrow> error + bool" where
  "isCanary branchName remoteUrl =
     (case branchName of
        JStr b \<Rightarrow>
          if trim b = ''canary'' then
            (case remoteUrl of
               JStr r \<Rightarrow> Inr (includes_str r ''vercel/next.js'')
             | JArr xs \<Rightarrow> Inr (JStr ''vercel/next.js'' \<in> set xs)
             | _ \<Rightarrow> Inl TypeError)
          else Inr False
      | _ \<Rightarrow> Inl TypeError)"

text \<open>
  Lines 49 to 55: the two fetch commands in a \<^verbatim>\<open>try\<close> block; the handler awaits
  \<^verbatim>\<open>git remote -v\<close> and prints two messages.
\<close>

definition fetchCanary :: "world \<Rightarrow> unit run" where
  "fetchCanary w =
     (case and_then (run_execa w ''git remote set-branches --add origin canary'')
             (\<lambda>_. run_execa w ''git fetch origin canary --depth=20'') of
        (t, Inr _) \<Rightarrow> (t, Inr ())
      | (t, Inl err) \<Rightarrow>
          and_then (t, Inr ()) (\<lambda>_.
          and_then (run_execa w ''git remote -v'') (\<lambda>_.
          ([ConsoleError, ConsoleError], Inr ()))))"

text \<open>
  Lines 57 to 72: the diff, whose rejection is printed and replaced by empty output;
  then the context and the output are printed.
\<close>

definition changesResult :: "world \<Rightarrow> (string \<times> string) run" where
  "changesResult w =
     (case run_execa w ''git diff origin/canary --name-only'' of
        (t, Inr r) \<Rightarrow> (t @ [ConsoleLog], Inr r)
      | (t, Inl err) \<Rightarrow> (t @ [ConsoleError, ConsoleLog], Inr ('''', '''')))"

text \<open>
  Lines 80 to 98: the loop over \<open>changedFiles\<close>, with the effects so far and the two
  lists as its state.
\<close>

fun classify :: "world \<Rightarrow> string list \<Rightarrow> effect list \<times> string list \<times> string list
    \<Rightarrow> effect list \<times> string list \<times> string list" where
  "classify w [] state = state"
| "classify w (line # changedFiles) (t, devs, prods) =
     (let file = normalize_slashes line;
          fileExists = fs_access w file;
          t' = t @ [Access file]
      in if fileExists \<and> test_file_match file then
           if startsWith file ''test/e2e/'' then
             classify w changedFiles (t', devs @ [file], prods @ [file])
           else if startsWith file ''test/prod'' then
             classify w changedFiles (t', devs, prods @ [file])
           else if startsWith file ''test/development'' then
             classify w changedFiles (t', devs @ [file], prods)
           else classify w changedFiles (t', devs, prods)
         else classify w changedFiles (t', devs, prods))"

text \<open>Lines 11 to 113.\<close>

definition getChangedTests :: "world \<Rightarrow> changed_tests run" where
  "getChangedTests w =
     and_then (resolveContext w) (\<lambda>(branchName, remoteUrl, commitSha).
     and_then ([], isCanary branchName remoteUrl) (\<lambda>canary.
     if canary then
       ([ConsoleLog], Inr \<lparr>devTests = [], prodTests = [], commitSha = None\<rparr>)
     else
       and_then (fetchCanary w) (\<lambda>_.
       and_then (changesResult w) (\<lambda>(out, err).
       case classify w (split_lines out) ([], [], []) of
         (t, devs, prods) \<Rightarrow>
           (t @ [ConsoleLog],
            Inr \<lparr>devTests = devs, prodTests = prods, commitSha = Some commitSha\<rparr>)))))"

text \<open>Line 73: \<open>changedFiles\<close>, the lines of the diff's output.\<close>

definition changed_files :: "world \<Rightarrow> string list" where
  "changed_files w =
     (case changesResult w of
        (t, Inr (out, err)) \<Rightarrow> split_lines out
      | (t, Inl e) \<Rightarrow> [])"

section \<open>The words of the specification\<close>

text \<open>
  The specification writes the pattern as the glob \<^verbatim>\<open>test/**/*.test.{js,ts,tsx}\<close>, anchored
  at the \<^verbatim>\<open>test/\<close> directory of the repository: a path below \<^verbatim>\<open>test/\<close> whose name ends
  with \<^verbatim>\<open>.test.js\<close>, \<^verbatim>\<open>.test.ts\<close> or \<^verbatim>\<open>.test.tsx\<close>.
\<close>

definition endsWith :: "string \<Rightarrow> string \<Rightarrow> bool" where
  "endsWith s e = startsWith (rev s) (rev e)"

definition test_glob :: "string \<Rightarrow> bool" where
  "test_glob path =
     (startsWith path ''test/'' \<and>
      (endsWith (drop 5 path) ''.test.js'' \<or> endsWith (drop 5 path) ''.test.ts'' \<or>
       endsWith (drop 5 path) ''.test.tsx''))"

text \<open>
  The fallback chain of the specification: of the values in order, the first non-empty
  one wins; with none, the result is empty.
\<close>

fun first_non_empty :: "string list \<Rightarrow> string" where
  "first_non_empty [] = ''''"
| "first_non_empty (v # vs) = (if v \<noteq> '''' then v else first_non_empty vs)"

text \<open>
  The three sources of the chain as strings.  A field of the payload is a string or
  absent, as the event file is declared
  (\<^verbatim>\<open>{ pull_request?: { head?: { ref?: string, repo?: { full_name?: string }, sha?: string } } }\<close>),
  a \<^verbatim>\<open>null\<close> counting as absent; an absent field, an unset variable and a command that
  gave no output count as empty.
\<close>

definition string_or_absent :: "jsval \<Rightarrow> bool" where
  "string_or_absent v =
     (case v of JStr s \<Rightarrow> True | JUndefined \<Rightarrow> True | JNull \<Rightarrow> True | _ \<Rightarrow> False)"

definition field_string :: "jsval \<Rightarrow> string" where
  "field_string v = (case v of JStr s \<Rightarrow> s | _ \<Rightarrow> '''')"

definition env_string :: "world \<Rightarrow> string \<Rightarrow> string" where
  "env_string w var = (case process_env w var of Some s \<Rightarrow> s | None \<Rightarrow> '''')"

definition git_stdout :: "world \<Rightarrow> string \<Rightarrow> string" where
  "git_stdout w command = (case execa w command of Resolved out err \<Rightarrow> out | Rejected \<Rightarrow> '''')"

text \<open>The \<^verbatim>\<open>head\<close> of the pull request in the event payload that a run reads.\<close>

definition payload_head :: "world \<Rightarrow> jsval" where
  "payload_head w =
     (case readEventData w of
        (t, Inr eventData) \<Rightarrow> opt_get eventData ''head''
      | (t, Inl e) \<Rightarrow> JUndefined)"

text \<open>
  A chain gets to its git command when the field of the payload and the variable are both
  falsy: the field absent, \<^verbatim>\<open>null\<close> or otherwise falsy, the variable unset or empty.
\<close>

definition needs_git :: "world \<Rightarrow> jsval \<Rightarrow> string \<Rightarrow> bool" where
  "needs_git w field var = (\<not> truthy field \<and> env_string w var = '''')"

text \<open>The path of the event file that a run reads.\<close>

definition event_path :: "world \<Rightarrow> string" where
  "event_path w = (case process_env w ''GITHUB_EVENT_PATH'' of None \<Rightarrow> '''' | Some p \<Rightarrow> p)"

section \<open>Example worlds\<close>

text \<open>A line feed and a backslash.\<close>

abbreviation LF :: char where "LF \<equiv> CHR 0x0A"

abbreviation BSL :: char where "BSL \<equiv> CHR 0x5C"

text \<open>
  A pull-request branch in continuous integration: the three variables are set, there
  is no event file, every command succeeds, and the diff names seven paths, the first
  one twice.  All of them exist but \<^verbatim>\<open>test/e2e/gone.test.ts\<close>.
\<close>

definition ci_diff :: string where
  "ci_diff =
     ''test/e2e/foo.test.ts'' @ [LF] @
     ''test/e2e/foo.test.ts'' @ [LF] @
     ''test'' @ [BSL] @ ''prod'' @ [BSL] @ ''bar.test.js'' @ [LF] @
     ''test/development/baz.test.tsx'' @ [LF] @
     ''test/unit/u.test.ts'' @ [LF] @
     ''test/production/x.test.ts'' @ [LF] @
     ''test/developments/y.test.ts'' @ [LF] @
     ''test/e2e/gone.test.ts'' @ [LF] @
     ''packages/next/README.md''"

definition ci_world :: world where
  "ci_world =
     \<lparr>process_env = [''GITHUB_REF_NAME'' \<mapsto> ''my-fix'',
                     ''GITHUB_REPOSITORY'' \<mapsto> ''someone/next.js'',
                     ''GITHUB_SHA'' \<mapsto> ''0a1b2c''],
      readFile_parse = (\<lambda>path. ReadError),
      execa = (\<lambda>command.
        if command = ''git diff origin/canary --name-only'' then Resolved ci_diff ''''
        else Resolved '''' ''''),
      fs_access = (\<lambda>file. file \<noteq> ''test/e2e/gone.test.ts'')\<rparr>"

text \<open>The diff of \<open>ci_world\<close> as git writes it with backslashes for separators.\<close>

definition ci_diff_backslashes :: string where
  "ci_diff_backslashes = map (\<lambda>c. if c = CHR ''/'' then BSL else c) ci_diff"

text \<open>The trace and the result of \<^verbatim>\<open>getChangedTests\<close> in that world.\<close>

definition ci_trace :: "effect list" where
  "ci_trace =
     [ReadFile '''',
      Exec ''git remote set-branches --add origin canary'',
      Exec ''git fetch origin canary --depth=20'',
      Exec ''git diff origin/canary --name-only'',
      ConsoleLog,
      Access ''test/e2e/foo.test.ts'',
      Access ''test/e2e/foo.test.ts'',
      Access ''test/prod/bar.test.js'',
      Access ''test/development/baz.test.tsx'',
      Access ''test/unit/u.test.ts'',
      Access ''test/production/x.test.ts'',
      Access ''test/developments/y.test.ts'',
      Access ''test/e2e/gone.test.ts'',
      Access ''packages/next/README.md'',
      ConsoleLog]"

definition ci_result :: changed_tests where
  "ci_result =
     \<lparr>devTests = [''test/e2e/foo.test.ts'', ''test/e2e/foo.test.ts'',
                  ''test/development/baz.test.tsx'', ''test/developments/y.test.ts''],
      prodTests = [''test/e2e/foo.test.ts'', ''test/e2e/foo.test.ts'',
                   ''test/prod/bar.test.js'', ''test/production/x.test.ts''],
      commitSha = Some (JStr ''0a1b2c'')\<rparr>"

text \<open>
  The baseline branch of the upstream repository, in a checkout with no variable set:
  the three values come from git.
\<close>

definition canary_world :: world where
  "canary_world =
     \<lparr>process_env = (\<lambda>var. None),
      readFile_parse = (\<lambda>path. ReadError),
      execa = (\<lambda>command.
        if command = ''git rev-parse --abbrev-ref HEAD'' then Resolved ''canary'' ''''
        else if command = ''git remote get-url origin''
          then Resolved ''https://github.com/vercel/next.js.git'' ''''
        else if command = ''git rev-parse HEAD'' then Resolved ''0a1b2c'' ''''
        else Rejected),
      fs_access = (\<lambda>file. True)\<rparr>"

text \<open>No variable set, no event file, and a directory that is not a git repository.\<close>

definition no_git_world :: world where
  "no_git_world =
     \<lparr>process_env = (\<lambda>var. None),
      readFile_parse = (\<lambda>path. ReadError),
      execa = (\<lambda>command. Rejected),
      fs_access = (\<lambda>file. True)\<rparr>"

text \<open>
  The three variables set as in continuous integration, in a directory that is not a
  git repository: every git command fails.
\<close>

definition env_only_world :: world where
  "env_only_world =
     \<lparr>process_env = [''GITHUB_REF_NAME'' \<mapsto> ''my-fix'',
                     ''GITHUB_REPOSITORY'' \<mapsto> ''someone/next.js'',
                     ''GITHUB_SHA'' \<mapsto> ''0a1b2c''],
      readFile_parse = (\<lambda>path. ReadError),
      execa = (\<lambda>command. Rejected),
      fs_access = (\<lambda>file. True)\<rparr>"

text \<open>
  As \<open>env_only_world\<close>, in a repository whose remote cannot be reached: the fetch and
  the diff fail, \<^verbatim>\<open>git remote -v\<close> succeeds.
\<close>

definition offline_world :: world where
  "offline_world =
     env_only_world\<lparr>execa := (\<lambda>command.
        if command = ''git remote -v'' \<or>
           command = ''git remote set-branches --add origin canary''
        then Resolved '''' '''' else Rejected)\<rparr>"

text \<open>
  A pull request: the event file gives the branch and the commit, the repository comes
  from the variable, and git is not asked.
\<close>

definition pr_world :: world where
  "pr_world =
     \<lparr>process_env = [''GITHUB_EVENT_PATH'' \<mapsto> ''/event.json'',
                     ''GITHUB_REF_NAME'' \<mapsto> ''12/merge'',
                     ''GITHUB_REPOSITORY'' \<mapsto> ''vercel/next.js''],
      readFile_parse = (\<lambda>path.
        if path = ''/event.json'' then
          Parsed (JObj [(''pull_request'',
            JObj [(''head'', JObj [(''ref'', JStr ''my-fix''), (''sha'', JStr ''0a1b2c'')])])])
        else ReadError),
      execa = (\<lambda>command.
        if command = ''git rev-parse HEAD'' then Resolved ''ffffff'' '''' else Rejected),
      fs_access = (\<lambda>file. True)\<rparr>"

text \<open>
  The branch name given by the variable and nothing else set, in a directory that is not a
  git repository.
\<close>

definition branch_only_world :: world where
  "branch_only_world =
     \<lparr>process_env = [''GITHUB_REF_NAME'' \<mapsto> ''my-fix''],
      readFile_parse = (\<lambda>path. ReadError),
      execa = (\<lambda>command. Rejected),
      fs_access = (\<lambda>file. True)\<rparr>"

text \<open>
  The baseline branch of the upstream repository by the two variables, \<^verbatim>\<open>GITHUB_SHA\<close>
  unset, in a directory that is not a git repository.
\<close>

definition canary_no_sha_world :: world where
  "canary_no_sha_world =
     \<lparr>process_env = [''GITHUB_REF_NAME'' \<mapsto> ''canary'',
                     ''GITHUB_REPOSITORY'' \<mapsto> ''vercel/next.js''],
      readFile_parse = (\<lambda>path. ReadError),
      execa = (\<lambda>command. Rejected),
      fs_access = (\<lambda>file. True)\<rparr>"

section \<open>Facts about the string functions\<close>

lemma startsWith_prefix: "startsWith s p \<longleftrightarrow> prefix p s"
  by (induction s p rule: startsWith.induct) auto

lemma includes_sublist: "includes_str s n \<longleftrightarrow> sublist n s"
proof (induction s)
  case Nil
  then show ?case by simp
next
  case (Cons c cs)
  then show ?case by (simp add: startsWith_prefix sublist_Cons_right)
qed

lemma nullable_lang: "nullable r \<longleftrightarrow> [] \<in> lang r"
  by (induction r) (auto intro: star.star_nil)

lemma star_deriv:
  assumes "w \<in> star L" and "w = a # x"
  shows "\<exists>u v. x = u @ v \<and> a # u \<in> L \<and> v \<in> star L"
  using assms
proof (induction arbitrary: x rule: star.induct)
  case star_nil
  then show ?case by simp
next
  case (star_app u v)
  then show ?case by (cases u) auto
qed

lemma lang_CatI: "u \<in> lang r \<Longrightarrow> v \<in> lang s \<Longrightarrow> u @ v \<in> lang (Cat r s)"
  unfolding lang.simps by blast

lemma deriv_lang: "x \<in> lang (deriv a r) \<longleftrightarrow> a # x \<in> lang r"
proof (induction r arbitrary: x)
  case (Cat r s)
  show ?case
  proof
    assume "x \<in> lang (deriv a (Cat r s))"
    then consider
      (left) u v where "x = u @ v" "u \<in> lang (deriv a r)" "v \<in> lang s"
      | (right) "nullable r" "x \<in> lang (deriv a s)"
      by (auto split: if_splits)
    then show "a # x \<in> lang (Cat r s)"
    proof cases
      case left
      then have "a # u \<in> lang r" using Cat.IH(1) by simp
      then have "(a # u) @ v \<in> lang (Cat r s)" using left(3) by (rule lang_CatI)
      then show ?thesis using left(1) by simp
    next
      case right
      then have "[] \<in> lang r" "a # x \<in> lang s"
        using Cat.IH(2) by (simp_all add: nullable_lang)
      then have "[] @ (a # x) \<in> lang (Cat r s)" by (rule lang_CatI)
      then show ?thesis by simp
    qed
  next
    assume "a # x \<in> lang (Cat r s)"
    then obtain u v where uv: "a # x = u @ v" "u \<in> lang r" "v \<in> lang s" by auto
    show "x \<in> lang (deriv a (Cat r s))"
    proof (cases u)
      case Nil
      then have "nullable r" "x \<in> lang (deriv a s)"
        using uv Cat.IH(2) by (simp_all add: nullable_lang)
      then show ?thesis by simp
    next
      case (Cons b u')
      then have "b = a" "x = u' @ v" "u' \<in> lang (deriv a r)"
        using uv Cat.IH(1) by simp_all
      then show ?thesis using uv(3) by auto
    qed
  qed
next
  case (Star r)
  show ?case
  proof
    assume "x \<in> lang (deriv a (Star r))"
    then obtain u v where uv: "x = u @ v" "u \<in> lang (deriv a r)" "v \<in> star (lang r)"
      by auto
    then have "a # u \<in> lang r" using Star.IH by simp
    then have "(a # u) @ v \<in> star (lang r)" using uv(3) by (rule star.star_app)
    then show "a # x \<in> lang (Star r)" using uv(1) by simp
  next
    assume "a # x \<in> lang (Star r)"
    then have "a # x \<in> star (lang r)" by simp
    then obtain u v where "x = u @ v" "a # u \<in> lang r" "v \<in> star (lang r)"
      using star_deriv by blast
    then show "x \<in> lang (deriv a (Star r))" using Star.IH by auto
  qed
qed auto

lemma matches_lang: "matches r s \<longleftrightarrow> s \<in> lang r"
  by (induction s arbitrary: r) (simp_all add: nullable_lang deriv_lang)

lemma lang_word: "lang (word s) = {s}"
  by (induction s) auto

lemma star_Dot: "star (lang Dot) = {s. \<forall>c \<in> set s. \<not> isLineTerminator c}"
proof (rule set_eqI, rule iffI)
  fix s
  assume "s \<in> star (lang Dot)"
  then show "s \<in> {s. \<forall>c \<in> set s. \<not> isLineTerminator c}"
    by (induction rule: star.induct) auto
next
  fix s
  assume "s \<in> {s. \<forall>c \<in> set s. \<not> isLineTerminator c}"
  then have "\<forall>c \<in> set s. \<not> isLineTerminator c" by simp
  then show "s \<in> star (lang Dot)"
  proof (induction s)
    case Nil
    show ?case by (rule star.star_nil)
  next
    case (Cons c cs)
    then have "[c] \<in> lang Dot" "cs \<in> star (lang Dot)" by simp_all
    then have "[c] @ cs \<in> star (lang Dot)" by (rule star.star_app)
    then show ?case by simp
  qed
qed

text \<open>What the pattern accepts, spelt out.\<close>

lemma test_file_match_iff:
  "test_file_match file \<longleftrightarrow>
     (\<exists>mid ext. file = ''test/'' @ mid @ ''.test.'' @ ext \<and>
        (\<forall>c \<in> set mid. \<not> isLineTerminator c) \<and>
        (ext = ''js'' \<or> ext = ''ts'' \<or> ext = ''tsx''))"
proof -
  have "lang test_file_regex =
      {''test/'' @ mid @ ''.test.'' @ ext | mid ext.
         (\<forall>c \<in> set mid. \<not> isLineTerminator c) \<and>
         (ext = ''js'' \<or> ext = ''ts'' \<or> ext = ''tsx'')}"
    unfolding test_file_regex_def lang.simps(5)[of "word _"] lang.simps(5)[of "Star _"]
      lang.simps(6,7) lang_word star_Dot
    by blast
  then show ?thesis
    unfolding test_file_match_def matches_lang by blast
qed

section \<open>Facts about a run\<close>

lemma and_then_Inl: "and_then (t, Inl e) f = (t, Inl e)"
  by (simp add: and_then_def)

lemma and_then_Inr: "and_then (t, Inr a) f = (t @ fst (f a), snd (f a))"
  by (simp add: and_then_def split: prod.splits)

lemma and_then_returns:
  assumes "and_then m f = (t, Inr b)"
  obtains t1 a t2 where "m = (t1, Inr a)" "f a = (t2, Inr b)" "t = t1 @ t2"
proof -
  obtain t1 x where m: "m = (t1, x)" by (cases m)
  show ?thesis
  proof (cases x)
    case (Inl e)
    with m assms show ?thesis by (simp add: and_then_Inl)
  next
    case (Inr a)
    from assms have "(t1 @ fst (f a), snd (f a)) = (t, Inr b)"
      unfolding m Inr by (simp add: and_then_Inr)
    then have "f a = (fst (f a), Inr b)" "t = t1 @ fst (f a)"
      by (simp_all add: prod_eq_iff)
    with m Inr that show ?thesis by blast
  qed
qed

lemma and_then_Inr_returns:
  "and_then (t1, Inr a) f = (t, Inr b) \<longleftrightarrow> (\<exists>t2. f a = (t2, Inr b) \<and> t = t1 @ t2)"
  by (auto simp: and_then_Inr prod_eq_iff)

lemma classify_filter:
  "classify w files (t, devs, prods) =
     (t @ map (\<lambda>line. Access (normalize_slashes line)) files,
      devs @ filter (\<lambda>file. fs_access w file \<and> test_file_match file \<and>
               (startsWith file ''test/e2e/'' \<or>
                \<not> startsWith file ''test/prod'' \<and> startsWith file ''test/development''))
             (map normalize_slashes files),
      prods @ filter (\<lambda>file. fs_access w file \<and> test_file_match file \<and>
               (startsWith file ''test/e2e/'' \<or> startsWith file ''test/prod''))
             (map normalize_slashes files))"
  by (induction files arbitrary: t devs prods) (simp_all add: Let_def)

lemma prod_not_e2e: "startsWith file ''test/prod'' \<Longrightarrow> \<not> startsWith file ''test/e2e/''"
  by (auto simp: startsWith_prefix prefix_def)

lemma development_not_prod: "startsWith file ''test/development'' \<Longrightarrow> \<not> startsWith file ''test/prod''"
  by (auto simp: startsWith_prefix prefix_def)

lemma development_not_e2e: "startsWith file ''test/development'' \<Longrightarrow> \<not> startsWith file ''test/e2e/''"
  by (auto simp: startsWith_prefix prefix_def)


lemma or_env_or_git_trace: "or_env_or_git w field var command = (t, x) \<Longrightarrow> set t \<subseteq> {Exec command}"
  by (auto simp: or_env_or_git_def Let_def run_execa_def and_then_Inl and_then_Inr
        split: if_splits exec_result.splits)

lemma readEventData_eq:
  "\<exists>eventData. readEventData w = ([ReadFile (event_path w)], Inr eventData)"
  by (simp add: readEventData_def event_path_def Let_def)

lemma resolveContext_trace:
  assumes "resolveContext w = (t, x)"
  shows "set t \<subseteq> {ReadFile (event_path w), Exec ''git rev-parse --abbrev-ref HEAD'',
           Exec ''git remote get-url origin'', Exec ''git rev-parse HEAD''}"
proof -
  obtain d where d: "readEventData w = ([ReadFile (event_path w)], Inr d)"
    using readEventData_eq by blast
  obtain t1 x1 where r1: "or_env_or_git w (opt_get (opt_get d ''head'') ''ref'')
      ''GITHUB_REF_NAME'' ''git rev-parse --abbrev-ref HEAD'' = (t1, x1)" by fastforce
  obtain t2 x2 where r2: "or_env_or_git w (opt_get (opt_get (opt_get d ''head'') ''repo'') ''full_name'')
      ''GITHUB_REPOSITORY'' ''git remote get-url origin'' = (t2, x2)" by fastforce
  obtain t3 x3 where r3: "or_env_or_git w (opt_get (opt_get d ''head'') ''sha'')
      ''GITHUB_SHA'' ''git rev-parse HEAD'' = (t3, x3)" by fastforce
  note tr = or_env_or_git_trace [OF r1] or_env_or_git_trace [OF r2] or_env_or_git_trace [OF r3]
  have "set t \<subseteq> {ReadFile (event_path w)} \<union> set t1 \<union> set t2 \<union> set t3"
    using assms unfolding resolveContext_def d Let_def
    by (cases x1; cases x2; cases x3) (auto simp: r1 r2 r3 and_then_Inl and_then_Inr)
  with tr show ?thesis by blast
qed

lemma resolveContext_returns:
  assumes "resolveContext w = (t, Inr (branchName, remoteUrl, sha))"
  obtains t1 t2 t3 where
    "or_env_or_git w (opt_get (payload_head w) ''ref'')
       ''GITHUB_REF_NAME'' ''git rev-parse --abbrev-ref HEAD'' = (t1, Inr branchName)"
    "or_env_or_git w (opt_get (opt_get (payload_head w) ''repo'') ''full_name'')
       ''GITHUB_REPOSITORY'' ''git remote get-url origin'' = (t2, Inr remoteUrl)"
    "or_env_or_git w (opt_get (payload_head w) ''sha'')
       ''GITHUB_SHA'' ''git rev-parse HEAD'' = (t3, Inr sha)"
proof -
  obtain d where d: "readEventData w = ([ReadFile (event_path w)], Inr d)"
    using readEventData_eq by blast
  then have h: "payload_head w = opt_get d ''head''" by (simp add: payload_head_def)
  from assms obtain tb where
    rest: "and_then (or_env_or_git w (opt_get (payload_head w) ''ref'')
                 ''GITHUB_REF_NAME'' ''git rev-parse --abbrev-ref HEAD'') (\<lambda>branchName.
     and_then (or_env_or_git w (opt_get (opt_get (payload_head w) ''repo'') ''full_name'')
                 ''GITHUB_REPOSITORY'' ''git remote get-url origin'') (\<lambda>remoteUrl.
     and_then (or_env_or_git w (opt_get (payload_head w) ''sha'')
                 ''GITHUB_SHA'' ''git rev-parse HEAD'') (\<lambda>commitSha.
     ([], Inr (branchName, remoteUrl, commitSha))))) = (tb, Inr (branchName, remoteUrl, sha))"
    unfolding resolveContext_def d Let_def h [symmetric] and_then_Inr_returns
    by blast
  from rest obtain t1 b' tc where
    1: "or_env_or_git w (opt_get (payload_head w) ''ref'')
          ''GITHUB_REF_NAME'' ''git rev-parse --abbrev-ref HEAD'' = (t1, Inr b')"
    and rest2: "and_then (or_env_or_git w (opt_get (opt_get (payload_head w) ''repo'') ''full_name'')
                 ''GITHUB_REPOSITORY'' ''git remote get-url origin'') (\<lambda>remoteUrl.
     and_then (or_env_or_git w (opt_get (payload_head w) ''sha'')
                 ''GITHUB_SHA'' ''git rev-parse HEAD'') (\<lambda>commitSha.
     ([], Inr (b', remoteUrl, commitSha)))) = (tc, Inr (branchName, remoteUrl, sha))"
    by (rule and_then_returns)
  from rest2 obtain t2 u' td where
    2: "or_env_or_git w (opt_get (opt_get (payload_head w) ''repo'') ''full_name'')
          ''GITHUB_REPOSITORY'' ''git remote get-url origin'' = (t2, Inr u')"
    and rest3: "and_then (or_env_or_git w (opt_get (payload_head w) ''sha'')
                 ''GITHUB_SHA'' ''git rev-parse HEAD'') (\<lambda>commitSha.
     ([], Inr (b', u', commitSha))) = (td, Inr (branchName, remoteUrl, sha))"
    by (rule and_then_returns)
  from rest3 obtain t3 s' te where
    3: "or_env_or_git w (opt_get (payload_head w) ''sha'')
          ''GITHUB_SHA'' ''git rev-parse HEAD'' = (t3, Inr s')"
    and "([], Inr (b', u', s')) = (te, Inr (branchName, remoteUrl, sha))"
    by (rule and_then_returns) blast
  then have "b' = branchName" "u' = remoteUrl" "s' = sha" by simp_all
  with 1 2 3 that show ?thesis by blast
qed

lemma or_env_or_git_first_non_empty:
  assumes "string_or_absent field" and "or_env_or_git w field var command = (t, Inr v)"
  shows "v = JStr (first_non_empty [field_string field, env_string w var, git_stdout w command])"
  using assms
  by (cases field)
     (auto simp: string_or_absent_def field_string_def env_string_def git_stdout_def
        or_env_or_git_def run_execa_def Let_def and_then_Inl and_then_Inr
        split: option.splits if_splits exec_result.splits)


lemma changesResult_eq:
  "\<exists>t out err. changesResult w = (Exec ''git diff origin/canary --name-only'' # t, Inr (out, err)) \<and>
     changed_files w = split_lines out \<and> set t \<subseteq> {ConsoleLog, ConsoleError}"
  by (cases "execa w ''git diff origin/canary --name-only''")
     (simp_all add: changesResult_def changed_files_def run_execa_def)

lemma getChangedTests_cases:
  assumes "getChangedTests w = (t, Inr r)"
  obtains
    (skipped) t0 branchName remoteUrl sha where
      "resolveContext w = (t0, Inr (branchName, remoteUrl, sha))"
      "isCanary branchName remoteUrl = Inr True"
      "t = t0 @ [ConsoleLog]"
      "r = \<lparr>devTests = [], prodTests = [], commitSha = None\<rparr>"
  | (classified) t0 branchName remoteUrl sha t1 t2 where
      "resolveContext w = (t0, Inr (branchName, remoteUrl, sha))"
      "isCanary branchName remoteUrl = Inr False"
      "fetchCanary w = (t1, Inr ())"
      "t = t0 @ t1 @ Exec ''git diff origin/canary --name-only'' # t2"
      "r = \<lparr>devTests =
              filter (\<lambda>file. fs_access w file \<and> test_file_match file \<and>
                 (startsWith file ''test/e2e/'' \<or>
                  \<not> startsWith file ''test/prod'' \<and> startsWith file ''test/development''))
               (map normalize_slashes (changed_files w)),
            prodTests =
              filter (\<lambda>file. fs_access w file \<and> test_file_match file \<and>
                 (startsWith file ''test/e2e/'' \<or> startsWith file ''test/prod''))
               (map normalize_slashes (changed_files w)),
            commitSha = Some sha\<rparr>"
proof -
  from assms obtain t0 ctx ta where
    ctx: "resolveContext w = (t0, Inr ctx)"
    and rest: "(case ctx of (branchName, remoteUrl, sha) \<Rightarrow>
     and_then ([], isCanary branchName remoteUrl) (\<lambda>canary.
     if canary then
       ([ConsoleLog], Inr \<lparr>devTests = [], prodTests = [], commitSha = None\<rparr>)
     else
       and_then (fetchCanary w) (\<lambda>_.
       and_then (changesResult w) (\<lambda>(out, err).
       case classify w (split_lines out) ([], [], []) of
         (t, devs, prods) \<Rightarrow>
           (t @ [ConsoleLog],
            Inr \<lparr>devTests = devs, prodTests = prods, commitSha = Some sha\<rparr>))))) = (ta, Inr r)"
    and t: "t = t0 @ ta"
    unfolding getChangedTests_def by (rule and_then_returns)
  obtain branchName remoteUrl sha where ctx_eq: "ctx = (branchName, remoteUrl, sha)"
    by (cases ctx)
  from rest obtain canary tb where
    canary: "isCanary branchName remoteUrl = Inr canary"
    and rest2: "(if canary then
       ([ConsoleLog], Inr \<lparr>devTests = [], prodTests = [], commitSha = None\<rparr>)
     else
       and_then (fetchCanary w) (\<lambda>_.
       and_then (changesResult w) (\<lambda>(out, err).
       case classify w (split_lines out) ([], [], []) of
         (t, devs, prods) \<Rightarrow>
           (t @ [ConsoleLog],
            Inr \<lparr>devTests = devs, prodTests = prods, commitSha = Some sha\<rparr>)))) = (tb, Inr r)"
    and ta: "ta = [] @ tb"
    unfolding ctx_eq prod.case by (rule and_then_returns) blast
  show ?thesis
  proof (cases canary)
    case True
    with rest2 have "tb = [ConsoleLog]" "r = \<lparr>devTests = [], prodTests = [], commitSha = None\<rparr>"
      by simp_all
    with ctx ctx_eq canary True t ta show ?thesis by (intro skipped) simp_all
  next
    case False
    with rest2 obtain t1 u tc where
      fetch: "fetchCanary w = (t1, Inr u)"
      and rest3: "and_then (changesResult w) (\<lambda>(out, err).
       case classify w (split_lines out) ([], [], []) of
         (t, devs, prods) \<Rightarrow>
           (t @ [ConsoleLog],
            Inr \<lparr>devTests = devs, prodTests = prods, commitSha = Some sha\<rparr>)) = (tc, Inr r)"
      and tb: "tb = t1 @ tc"
      by (auto elim: and_then_returns)
    obtain td out err where
      diff: "changesResult w = (Exec ''git diff origin/canary --name-only'' # td, Inr (out, err))"
      and files: "changed_files w = split_lines out"
      using changesResult_eq by blast
    from rest3 obtain te where
      "tc = (Exec ''git diff origin/canary --name-only'' # td) @ te"
      "r = \<lparr>devTests =
              filter (\<lambda>file. fs_access w file \<and> test_file_match file \<and>
                 (startsWith file ''test/e2e/'' \<or>
                  \<not> startsWith file ''test/prod'' \<and> startsWith file ''test/development''))
               (map normalize_slashes (changed_files w)),
            prodTests =
              filter (\<lambda>file. fs_access w file \<and> test_file_match file \<and>
                 (startsWith file ''test/e2e/'' \<or> startsWith file ''test/prod''))
               (map normalize_slashes (changed_files w)),
            commitSha = Some sha\<rparr>"
      unfolding diff and_then_Inr_returns files by (auto simp: classify_filter)
    with ctx ctx_eq canary False fetch t ta tb show ?thesis
      by (intro classified [where ?t2.0 = "td @ te"]) simp_all
  qed
qed

lemma diff_not_in_context:
  assumes "resolveContext w = (t0, x)"
  shows "Exec ''git diff origin/canary --name-only'' \<notin> set (t0 @ [ConsoleLog])"
  using resolveContext_trace [OF assms] by auto

lemma ci_world_run: "getChangedTests ci_world = (ci_trace, Inr ci_result)"
  by code_simp

lemma ci_world_changed_files:
  "map normalize_slashes (changed_files ci_world) =
     [''test/e2e/foo.test.ts'', ''test/e2e/foo.test.ts'', ''test/prod/bar.test.js'',
      ''test/development/baz.test.tsx'', ''test/unit/u.test.ts'', ''test/production/x.test.ts'',
      ''test/developments/y.test.ts'', ''test/e2e/gone.test.ts'', ''packages/next/README.md'']"
  by code_simp

lemma normalize_slashes_no_backslash: "CHR 0x5C \<notin> set (normalize_slashes s)"
  by (auto simp: normalize_slashes_def)

lemma normalize_slashes_id: "CHR 0x5C \<notin> set s \<Longrightarrow> normalize_slashes s = s"
  by (induction s) (auto simp: normalize_slashes_def)

lemma test_file_match_glob: "test_file_match path \<Longrightarrow> test_glob path"
  by (auto simp: test_file_match_iff test_glob_def endsWith_def startsWith_prefix)

lemma listed_paths:
  assumes "getChangedTests w = (t, Inr r)"
    and "path \<in> set (devTests r) \<or> path \<in> set (prodTests r)"
  shows "normalize_slashes path = path \<and> fs_access w path \<and> test_file_match path"
  using assms(1)
proof (cases rule: getChangedTests_cases)
  case (skipped t0 branchName remoteUrl sha)
  with assms(2) show ?thesis by simp
next
  case (classified t0 branchName remoteUrl sha t1 t2)
  with assms(2) have "path \<in> set (map normalize_slashes (changed_files w))"
    "fs_access w path" "test_file_match path"
    by auto
  then show ?thesis
    using normalize_slashes_no_backslash normalize_slashes_id by auto
qed

lemma effects_of_context:
  assumes "resolveContext w = (t0, x)" and "e \<in> set (t0 @ [ConsoleLog])"
  shows "e \<noteq> Exec ''git remote set-branches --add origin canary'' \<and>
         e \<noteq> Exec ''git fetch origin canary --depth=20'' \<and>
         e \<noteq> Exec ''git remote -v'' \<and>
         e \<noteq> Exec ''git diff origin/canary --name-only'' \<and>
         (\<forall>file. e \<noteq> Access file)"
  using resolveContext_trace [OF assms(1)] assms(2) by auto

lemma canary_world_context:
  "resolveContext canary_world =
     ([ReadFile '''', Exec ''git rev-parse --abbrev-ref HEAD'',
       Exec ''git remote get-url origin'', Exec ''git rev-parse HEAD''],
      Inr (JStr ''canary'', JStr ''https://github.com/vercel/next.js.git'', JStr ''0a1b2c''))"
  by code_simp

lemma fetchCanary_returns:
  assumes "execa w ''git remote set-branches --add origin canary'' \<noteq> Rejected \<and>
           execa w ''git fetch origin canary --depth=20'' \<noteq> Rejected \<or>
           execa w ''git remote -v'' \<noteq> Rejected"
  shows "\<exists>t. fetchCanary w = (t, Inr ())"
  using assms
  by (auto simp: fetchCanary_def run_execa_def and_then_Inl and_then_Inr
        split: exec_result.splits)

lemma pr_world_context:
  "resolveContext pr_world =
     ([ReadFile ''/event.json''],
      Inr (JStr ''my-fix'', JStr ''vercel/next.js'', JStr ''0a1b2c''))"
  by code_simp

lemma split_lines_not_empty: "split_lines s \<noteq> []"
  by (induction s) (auto split: list.splits)

lemma split_lines_normalize:
  "split_lines (normalize_slashes s) = map normalize_slashes (split_lines s)"
proof (induction s)
  case Nil
  show ?case by (simp add: normalize_slashes_def)
next
  case (Cons c cs)
  obtain l ls where "split_lines cs = l # ls"
    using split_lines_not_empty by (cases "split_lines cs") auto
  with Cons show ?case by (auto simp: normalize_slashes_def)
qed

lemma normalize_slashes_idem: "normalize_slashes (normalize_slashes s) = normalize_slashes s"
  by (simp add: normalize_slashes_id normalize_slashes_no_backslash)

lemma classify_normalized:
  assumes "map normalize_slashes files' = map normalize_slashes files"
    and "fs_access w' = fs_access w"
  shows "classify w' files' state = classify w files state"
proof -
  obtain t devs prods where state: "state = (t, devs, prods)"
    by (cases state)
  have eq: "map (\<lambda>line. Access (normalize_slashes line)) fs = map Access (map normalize_slashes fs)"
    for fs by simp
  show ?thesis
    by (simp only: state classify_filter eq assms)
qed

lemma run_execa_cong: "execa w' command = execa w command \<Longrightarrow> run_execa w' command = run_execa w command"
  by (simp add: run_execa_def)

lemma or_env_or_git_cong:
  assumes "process_env w' = process_env w" and "execa w' command = execa w command"
  shows "or_env_or_git w' field var command = or_env_or_git w field var command"
  unfolding or_env_or_git_def assms(1) run_execa_cong [OF assms(2)] by (rule refl)

lemma readEventData_cong:
  assumes "process_env w' = process_env w" and "readFile_parse w' = readFile_parse w"
  shows "readEventData w' = readEventData w"
  by (simp add: readEventData_def assms)

lemma resolveContext_cong:
  assumes "process_env w' = process_env w" and "readFile_parse w' = readFile_parse w"
    and "execa w' ''git rev-parse --abbrev-ref HEAD'' = execa w ''git rev-parse --abbrev-ref HEAD''"
    and "execa w' ''git remote get-url origin'' = execa w ''git remote get-url origin''"
    and "execa w' ''git rev-parse HEAD'' = execa w ''git rev-parse HEAD''"
  shows "resolveContext w' = resolveContext w"
  by (simp only: resolveContext_def readEventData_cong [OF assms(1,2)]
        or_env_or_git_cong [OF assms(1) assms(3)] or_env_or_git_cong [OF assms(1) assms(4)]
        or_env_or_git_cong [OF assms(1) assms(5)])

lemma fetchCanary_cong:
  assumes "execa w' ''git remote set-branches --add origin canary'' =
           execa w ''git remote set-branches --add origin canary''"
    and "execa w' ''git fetch origin canary --depth=20'' = execa w ''git fetch origin canary --depth=20''"
    and "execa w' ''git remote -v'' = execa w ''git remote -v''"
  shows "fetchCanary w' = fetchCanary w"
  by (simp only: fetchCanary_def run_execa_cong [OF assms(1)] run_execa_cong [OF assms(2)]
        run_execa_cong [OF assms(3)])

lemma changed_files_rejected:
  "execa w ''git diff origin/canary --name-only'' = Rejected \<Longrightarrow> changed_files w = ['''']"
  by (simp add: changed_files_def changesResult_def run_execa_def)

lemma no_match_empty: "\<not> test_file_match ''''"
  by code_simp

lemma offline_world_context:
  "resolveContext offline_world =
     ([ReadFile ''''], Inr (JStr ''my-fix'', JStr ''someone/next.js'', JStr ''0a1b2c''))"
  by code_simp

lemma no_git_world_context:
  "resolveContext no_git_world =
     ([ReadFile '''', Exec ''git rev-parse --abbrev-ref HEAD''],
      Inl (ExecaError ''git rev-parse --abbrev-ref HEAD''))"
  by code_simp

lemma or_env_or_git_throws:
  assumes "needs_git w field var" and "execa w command = Rejected"
  shows "or_env_or_git w field var command = ([Exec command], Inl (ExecaError command))"
  using assms
  by (auto simp: needs_git_def env_string_def or_env_or_git_def run_execa_def Let_def
        and_then_Inl split: option.splits)

lemma or_env_or_git_returns:
  assumes "\<not> (needs_git w field var \<and> execa w command = Rejected)"
  shows "\<exists>t v. or_env_or_git w field var command = (t, Inr v)"
  using assms
  by (cases "execa w command")
     (auto simp: needs_git_def env_string_def or_env_or_git_def run_execa_def Let_def
        and_then_Inr split: option.splits)

lemma resolveContext_unfold:
  "resolveContext w =
     and_then ([ReadFile (event_path w)], Inr ()) (\<lambda>_.
       and_then (or_env_or_git w (opt_get (payload_head w) ''ref'')
                   ''GITHUB_REF_NAME'' ''git rev-parse --abbrev-ref HEAD'') (\<lambda>branchName.
       and_then (or_env_or_git w (opt_get (opt_get (payload_head w) ''repo'') ''full_name'')
                   ''GITHUB_REPOSITORY'' ''git remote get-url origin'') (\<lambda>remoteUrl.
       and_then (or_env_or_git w (opt_get (payload_head w) ''sha'')
                   ''GITHUB_SHA'' ''git rev-parse HEAD'') (\<lambda>commitSha.
       ([], Inr (branchName, remoteUrl, commitSha))))))"
proof -
  obtain d where d: "readEventData w = ([ReadFile (event_path w)], Inr d)"
    using readEventData_eq by blast
  then have h: "payload_head w = opt_get d ''head''" by (simp add: payload_head_def)
  show ?thesis
    unfolding resolveContext_def d Let_def and_then_Inr h by (rule refl)
qed

lemma getChangedTests_context_error:
  "snd (resolveContext w) = Inl e \<Longrightarrow> snd (getChangedTests w) = Inl e"
  by (cases "resolveContext w") (simp add: getChangedTests_def and_then_Inl)

lemma branch_failure_throws:
  assumes "needs_git w (opt_get (payload_head w) ''ref'') ''GITHUB_REF_NAME''"
    and "execa w ''git rev-parse --abbrev-ref HEAD'' = Rejected"
  shows "snd (getChangedTests w) = Inl (ExecaError ''git rev-parse --abbrev-ref HEAD'')"
proof -
  note ctx = resolveContext_unfold [of w]
  from ctx have "snd (resolveContext w) = Inl (ExecaError ''git rev-parse --abbrev-ref HEAD'')"
    by (simp add: or_env_or_git_throws [OF assms] and_then_Inl and_then_Inr)
  then show ?thesis by (rule getChangedTests_context_error)
qed

lemma remote_failure_throws:
  assumes "\<not> (needs_git w (opt_get (payload_head w) ''ref'') ''GITHUB_REF_NAME'' \<and>
              execa w ''git rev-parse --abbrev-ref HEAD'' = Rejected)"
    and "needs_git w (opt_get (opt_get (payload_head w) ''repo'') ''full_name'') ''GITHUB_REPOSITORY''"
    and "execa w ''git remote get-url origin'' = Rejected"
  shows "snd (getChangedTests w) = Inl (ExecaError ''git remote get-url origin'')"
proof -
  note ctx = resolveContext_unfold [of w]
  obtain t1 b where "or_env_or_git w (opt_get (payload_head w) ''ref'')
      ''GITHUB_REF_NAME'' ''git rev-parse --abbrev-ref HEAD'' = (t1, Inr b)"
    using or_env_or_git_returns [OF assms(1)] by blast
  with ctx have "snd (resolveContext w) = Inl (ExecaError ''git remote get-url origin'')"
    by (simp add: or_env_or_git_throws [OF assms(2,3)] and_then_Inl and_then_Inr)
  then show ?thesis by (rule getChangedTests_context_error)
qed

lemma sha_failure_throws:
  assumes "\<not> (needs_git w (opt_get (payload_head w) ''ref'') ''GITHUB_REF_NAME'' \<and>
              execa w ''git rev-parse --abbrev-ref HEAD'' = Rejected)"
    and "\<not> (needs_git w (opt_get (opt_get (payload_head w) ''repo'') ''full_name'')
                ''GITHUB_REPOSITORY'' \<and>
              execa w ''git remote get-url origin'' = Rejected)"
    and "needs_git w (opt_get (payload_head w) ''sha'') ''GITHUB_SHA''"
    and "execa w ''git rev-parse HEAD'' = Rejected"
  shows "snd (getChangedTests w) = Inl (ExecaError ''git rev-parse HEAD'')"
proof -
  note ctx = resolveContext_unfold [of w]
  obtain t1 b where 1: "or_env_or_git w (opt_get (payload_head w) ''ref'')
      ''GITHUB_REF_NAME'' ''git rev-parse --abbrev-ref HEAD'' = (t1, Inr b)"
    using or_env_or_git_returns [OF assms(1)] by blast
  obtain t2 u where 2: "or_env_or_git w (opt_get (opt_get (payload_head w) ''repo'') ''full_name'')
      ''GITHUB_REPOSITORY'' ''git remote get-url origin'' = (t2, Inr u)"
    using or_env_or_git_returns [OF assms(2)] by blast
  from ctx 1 2 have "snd (resolveContext w) = Inl (ExecaError ''git rev-parse HEAD'')"
    by (simp add: or_env_or_git_throws [OF assms(3,4)] and_then_Inl and_then_Inr)
  then show ?thesis by (rule getChangedTests_context_error)
qed

section \<open>The properties\<close>

text \<open>
  C1.  A branch name of \<^verbatim>\<open>canary\<close> and a remote URL that contains \<^verbatim>\<open>vercel/next.js\<close> do
  not suffice for the empty result: the commit SHA is resolved at lines 36 to 39, before
  the test of lines 41 to 44.  With the two variables set, \<^verbatim>\<open>GITHUB_SHA\<close> unset and git
  failing, the branch name and the remote URL resolve from the variables and
  \<^verbatim>\<open>getChangedTests\<close> throws the rejection of \<^verbatim>\<open>git rev-parse HEAD\<close>.
\<close>

theorem canary_without_sha_throws:
  "or_env_or_git canary_no_sha_world (opt_get (payload_head canary_no_sha_world) ''ref'')
     ''GITHUB_REF_NAME'' ''git rev-parse --abbrev-ref HEAD'' = ([], Inr (JStr ''canary'')) \<and>
   or_env_or_git canary_no_sha_world
     (opt_get (opt_get (payload_head canary_no_sha_world) ''repo'') ''full_name'')
     ''GITHUB_REPOSITORY'' ''git remote get-url origin'' = ([], Inr (JStr ''vercel/next.js'')) \<and>
   trim ''canary'' = ''canary'' \<and>
   includes_str ''vercel/next.js'' ''vercel/next.js'' \<and>
   getChangedTests canary_no_sha_world =
     ([ReadFile '''', Exec ''git rev-parse HEAD''], Inl (ExecaError ''git rev-parse HEAD''))"
  by code_simp

text \<open>
  C1, as the script has it.  When context resolution completes, the commit SHA
  included, with a string for the branch name that is \<^verbatim>\<open>canary\<close> once trimmed and a
  string for the remote URL that contains \<^verbatim>\<open>vercel/next.js\<close>, \<^verbatim>\<open>getChangedTests\<close> returns
  \<^verbatim>\<open>{ devTests: [], prodTests: [] }\<close>, with no \<open>commitSha\<close>, and the run has, after what
  the resolution did, one message as its only effect: no fetch command, no
  \<^verbatim>\<open>git remote -v\<close>, no diff, no existence check.
\<close>

theorem canary_short_circuit:
  assumes "resolveContext w = (t0, Inr (JStr branchName, JStr remoteUrl, sha))"
    and "trim branchName = ''canary''"
    and "includes_str remoteUrl ''vercel/next.js''"
  shows "getChangedTests w =
           (t0 @ [ConsoleLog], Inr \<lparr>devTests = [], prodTests = [], commitSha = None\<rparr>) \<and>
         (\<forall>e \<in> set (t0 @ [ConsoleLog]).
            e \<noteq> Exec ''git remote set-branches --add origin canary'' \<and>
            e \<noteq> Exec ''git fetch origin canary --depth=20'' \<and>
            e \<noteq> Exec ''git remote -v'' \<and>
            e \<noteq> Exec ''git diff origin/canary --name-only'' \<and>
            (\<forall>file. e \<noteq> Access file))"
proof
  have "isCanary (JStr branchName) (JStr remoteUrl) = Inr True"
    using assms(2,3) by (simp add: isCanary_def)
  then show "getChangedTests w =
      (t0 @ [ConsoleLog], Inr \<lparr>devTests = [], prodTests = [], commitSha = None\<rparr>)"
    by (simp add: getChangedTests_def assms(1) and_then_Inr)
  show "\<forall>e \<in> set (t0 @ [ConsoleLog]).
            e \<noteq> Exec ''git remote set-branches --add origin canary'' \<and>
            e \<noteq> Exec ''git fetch origin canary --depth=20'' \<and>
            e \<noteq> Exec ''git remote -v'' \<and>
            e \<noteq> Exec ''git diff origin/canary --name-only'' \<and>
            (\<forall>file. e \<noteq> Access file)"
  proof
    fix e
    assume "e \<in> set (t0 @ [ConsoleLog])"
    with assms(1) show "e \<noteq> Exec ''git remote set-branches --add origin canary'' \<and>
            e \<noteq> Exec ''git fetch origin canary --depth=20'' \<and>
            e \<noteq> Exec ''git remote -v'' \<and>
            e \<noteq> Exec ''git diff origin/canary --name-only'' \<and>
            (\<forall>file. e \<noteq> Access file)"
      by (rule effects_of_context)
  qed
qed

theorem canary_short_circuit_witness:
  "trim ''canary'' = ''canary'' \<and>
   includes_str ''https://github.com/vercel/next.js.git'' ''vercel/next.js'' \<and>
   getChangedTests canary_world =
     ([ReadFile '''', Exec ''git rev-parse --abbrev-ref HEAD'',
       Exec ''git remote get-url origin'', Exec ''git rev-parse HEAD'', ConsoleLog],
      Inr \<lparr>devTests = [], prodTests = [], commitSha = None\<rparr>)"
proof -
  have branch: "trim ''canary'' = ''canary''"
    by (simp add: trim_def isWhiteSpace_def)
  have remote: "includes_str ''https://github.com/vercel/next.js.git'' ''vercel/next.js''"
    by simp
  show ?thesis
    using branch remote canary_short_circuit [OF canary_world_context branch remote]
    by simp
qed

text \<open>
  C2.  In a run that gets to the diff and returns, a changed path, slashes normalized,
  that exists and matches the pattern is bucketed by the first rule that applies: under
  \<^verbatim>\<open>test/e2e/\<close> it is in both lists; otherwise, starting with \<^verbatim>\<open>test/prod\<close>, it is in
  \<open>prodTests\<close> only; otherwise, starting with \<^verbatim>\<open>test/development\<close>, it is in \<open>devTests\<close>
  only; otherwise it is in neither list.
\<close>

theorem bucketing_first_match:
  assumes "getChangedTests w = (t, Inr r)"
    and "Exec ''git diff origin/canary --name-only'' \<in> set t"
    and "file \<in> set (map normalize_slashes (changed_files w))"
    and "fs_access w file"
    and "test_file_match file"
  shows "(startsWith file ''test/e2e/'' \<longrightarrow>
            file \<in> set (devTests r) \<and> file \<in> set (prodTests r)) \<and>
         (\<not> startsWith file ''test/e2e/'' \<and> startsWith file ''test/prod'' \<longrightarrow>
            file \<notin> set (devTests r) \<and> file \<in> set (prodTests r)) \<and>
         (\<not> startsWith file ''test/e2e/'' \<and> \<not> startsWith file ''test/prod'' \<and>
          startsWith file ''test/development'' \<longrightarrow>
            file \<in> set (devTests r) \<and> file \<notin> set (prodTests r)) \<and>
         (\<not> startsWith file ''test/e2e/'' \<and> \<not> startsWith file ''test/prod'' \<and>
          \<not> startsWith file ''test/development'' \<longrightarrow>
            file \<notin> set (devTests r) \<and> file \<notin> set (prodTests r))"
  using assms(1)
proof (cases rule: getChangedTests_cases)
  case (skipped t0 branchName remoteUrl sha)
  with assms(2) diff_not_in_context show ?thesis by blast
next
  case (classified t0 branchName remoteUrl sha t1 t2)
  with assms(3-5) show ?thesis by simp
qed

theorem bucketing_first_match_witness:
  "(''test/e2e/foo.test.ts'' \<in> set (devTests ci_result) \<and>
    ''test/e2e/foo.test.ts'' \<in> set (prodTests ci_result)) \<and>
   (''test/prod/bar.test.js'' \<notin> set (devTests ci_result) \<and>
    ''test/prod/bar.test.js'' \<in> set (prodTests ci_result)) \<and>
   (''test/development/baz.test.tsx'' \<in> set (devTests ci_result) \<and>
    ''test/development/baz.test.tsx'' \<notin> set (prodTests ci_result)) \<and>
   (''test/unit/u.test.ts'' \<notin> set (devTests ci_result) \<and>
    ''test/unit/u.test.ts'' \<notin> set (prodTests ci_result))"
proof -
  have diff: "Exec ''git diff origin/canary --name-only'' \<in> set ci_trace"
    by (simp add: ci_trace_def)
  note rule = bucketing_first_match [OF ci_world_run diff]
  have changed:
    "''test/e2e/foo.test.ts'' \<in> set (map normalize_slashes (changed_files ci_world))"
    "''test/prod/bar.test.js'' \<in> set (map normalize_slashes (changed_files ci_world))"
    "''test/development/baz.test.tsx'' \<in> set (map normalize_slashes (changed_files ci_world))"
    "''test/unit/u.test.ts'' \<in> set (map normalize_slashes (changed_files ci_world))"
    unfolding ci_world_changed_files by simp_all
  have exist:
    "fs_access ci_world ''test/e2e/foo.test.ts''"
    "fs_access ci_world ''test/prod/bar.test.js''"
    "fs_access ci_world ''test/development/baz.test.tsx''"
    "fs_access ci_world ''test/unit/u.test.ts''"
    by (simp_all add: ci_world_def)
  have match:
    "test_file_match ''test/e2e/foo.test.ts''"
    "test_file_match ''test/prod/bar.test.js''"
    "test_file_match ''test/development/baz.test.tsx''"
    "test_file_match ''test/unit/u.test.ts''"
    by code_simp+
  show ?thesis
    using rule [OF changed(1) exist(1) match(1)] rule [OF changed(2) exist(2) match(2)]
      rule [OF changed(3) exist(3) match(3)] rule [OF changed(4) exist(4) match(4)]
    by simp
qed

text \<open>
  C3.  \<^verbatim>\<open>getChangedTests\<close> can throw: the rejection of a git command of the context
  resolution is not caught, as in a directory that is no git repository when
  \<^verbatim>\<open>GITHUB_REF_NAME\<close> is unset.
\<close>

theorem getChangedTests_can_throw:
  "getChangedTests no_git_world =
     ([ReadFile '''', Exec ''git rev-parse --abbrev-ref HEAD''],
      Inl (ExecaError ''git rev-parse --abbrev-ref HEAD''))"
  by code_simp

text \<open>
  C3, as the script has it.  When context resolution completes, with strings for the
  branch name and the remote URL, and either both fetch commands succeed or
  \<^verbatim>\<open>git remote -v\<close> does, \<^verbatim>\<open>getChangedTests\<close> returns a result, whatever the diff command
  and the existence checks do; when the diff command fails, both lists of the result are
  empty.  When context resolution throws, \<^verbatim>\<open>getChangedTests\<close> throws the same error;
  and it throws the rejection of each of the three git commands of the resolution:
  of \<^verbatim>\<open>git rev-parse --abbrev-ref HEAD\<close> when the chain of the branch name gets to it, of
  \<^verbatim>\<open>git remote get-url origin\<close> when the branch name has resolved and the chain of the
  remote URL gets to it, of \<^verbatim>\<open>git rev-parse HEAD\<close> when both have resolved and the chain of
  the commit SHA gets to it.
\<close>

theorem returns_when_context_resolves:
  "(resolveContext w = (t0, Inr (JStr branchName, JStr remoteUrl, sha)) \<and>
    (execa w ''git remote set-branches --add origin canary'' \<noteq> Rejected \<and>
     execa w ''git fetch origin canary --depth=20'' \<noteq> Rejected \<or>
     execa w ''git remote -v'' \<noteq> Rejected) \<longrightarrow>
      (\<exists>t r. getChangedTests w = (t, Inr r) \<and>
         (execa w ''git diff origin/canary --name-only'' = Rejected \<longrightarrow>
            devTests r = [] \<and> prodTests r = []))) \<and>
   (resolveContext w = (t0, Inl e) \<longrightarrow> getChangedTests w = (t0, Inl e)) \<and>
   (needs_git w (opt_get (payload_head w) ''ref'') ''GITHUB_REF_NAME'' \<and>
    execa w ''git rev-parse --abbrev-ref HEAD'' = Rejected \<longrightarrow>
      snd (getChangedTests w) = Inl (ExecaError ''git rev-parse --abbrev-ref HEAD'')) \<and>
   (\<not> (needs_git w (opt_get (payload_head w) ''ref'') ''GITHUB_REF_NAME'' \<and>
        execa w ''git rev-parse --abbrev-ref HEAD'' = Rejected) \<and>
    needs_git w (opt_get (opt_get (payload_head w) ''repo'') ''full_name'')
      ''GITHUB_REPOSITORY'' \<and>
    execa w ''git remote get-url origin'' = Rejected \<longrightarrow>
      snd (getChangedTests w) = Inl (ExecaError ''git remote get-url origin'')) \<and>
   (\<not> (needs_git w (opt_get (payload_head w) ''ref'') ''GITHUB_REF_NAME'' \<and>
        execa w ''git rev-parse --abbrev-ref HEAD'' = Rejected) \<and>
    \<not> (needs_git w (opt_get (opt_get (payload_head w) ''repo'') ''full_name'')
          ''GITHUB_REPOSITORY'' \<and>
        execa w ''git remote get-url origin'' = Rejected) \<and>
    needs_git w (opt_get (payload_head w) ''sha'') ''GITHUB_SHA'' \<and>
    execa w ''git rev-parse HEAD'' = Rejected \<longrightarrow>
      snd (getChangedTests w) = Inl (ExecaError ''git rev-parse HEAD''))"
proof (intro conjI impI)
  assume a: "resolveContext w = (t0, Inr (JStr branchName, JStr remoteUrl, sha)) \<and>
    (execa w ''git remote set-branches --add origin canary'' \<noteq> Rejected \<and>
     execa w ''git fetch origin canary --depth=20'' \<noteq> Rejected \<or>
     execa w ''git remote -v'' \<noteq> Rejected)"
  obtain canary where canary: "isCanary (JStr branchName) (JStr remoteUrl) = Inr canary"
    by (cases "trim branchName = ''canary''") (simp_all add: isCanary_def)
  obtain t1 where fetch: "fetchCanary w = (t1, Inr ())"
    using a fetchCanary_returns by blast
  obtain t2 out err where diff: "changesResult w = (t2, Inr (out, err))"
    using changesResult_eq by blast
  from a obtain t r where run: "getChangedTests w = (t, Inr r)"
    by (cases canary)
       (simp_all add: getChangedTests_def canary fetch diff and_then_Inr classify_filter)
  have "devTests r = [] \<and> prodTests r = []"
    if "execa w ''git diff origin/canary --name-only'' = Rejected"
    using run
  proof (cases rule: getChangedTests_cases)
    case (skipped t0 branchName remoteUrl sha)
    then show ?thesis by simp
  next
    case (classified t0 branchName remoteUrl sha t1 t2)
    then show ?thesis
      by (simp add: changed_files_rejected [OF that] normalize_slashes_def no_match_empty)
  qed
  with run show "\<exists>t r. getChangedTests w = (t, Inr r) \<and>
         (execa w ''git diff origin/canary --name-only'' = Rejected \<longrightarrow>
            devTests r = [] \<and> prodTests r = [])"
    by blast
next
  assume "resolveContext w = (t0, Inl e)"
  then show "getChangedTests w = (t0, Inl e)"
    by (simp add: getChangedTests_def and_then_Inl)
next
  assume "needs_git w (opt_get (payload_head w) ''ref'') ''GITHUB_REF_NAME'' \<and>
    execa w ''git rev-parse --abbrev-ref HEAD'' = Rejected"
  then show "snd (getChangedTests w) = Inl (ExecaError ''git rev-parse --abbrev-ref HEAD'')"
    using branch_failure_throws by blast
next
  assume "\<not> (needs_git w (opt_get (payload_head w) ''ref'') ''GITHUB_REF_NAME'' \<and>
        execa w ''git rev-parse --abbrev-ref HEAD'' = Rejected) \<and>
    needs_git w (opt_get (opt_get (payload_head w) ''repo'') ''full_name'')
      ''GITHUB_REPOSITORY'' \<and>
    execa w ''git remote get-url origin'' = Rejected"
  then show "snd (getChangedTests w) = Inl (ExecaError ''git remote get-url origin'')"
    using remote_failure_throws by blast
next
  assume "\<not> (needs_git w (opt_get (payload_head w) ''ref'') ''GITHUB_REF_NAME'' \<and>
        execa w ''git rev-parse --abbrev-ref HEAD'' = Rejected) \<and>
    \<not> (needs_git w (opt_get (opt_get (payload_head w) ''repo'') ''full_name'')
          ''GITHUB_REPOSITORY'' \<and>
        execa w ''git remote get-url origin'' = Rejected) \<and>
    needs_git w (opt_get (payload_head w) ''sha'') ''GITHUB_SHA'' \<and>
    execa w ''git rev-parse HEAD'' = Rejected"
  then show "snd (getChangedTests w) = Inl (ExecaError ''git rev-parse HEAD'')"
    using sha_failure_throws by blast
qed

theorem returns_when_context_resolves_witness:
  "resolveContext offline_world =
     ([ReadFile ''''], Inr (JStr ''my-fix'', JStr ''someone/next.js'', JStr ''0a1b2c'')) \<and>
   execa offline_world ''git fetch origin canary --depth=20'' = Rejected \<and>
   execa offline_world ''git remote -v'' \<noteq> Rejected \<and>
   execa offline_world ''git diff origin/canary --name-only'' = Rejected \<and>
   (\<exists>t r. getChangedTests offline_world = (t, Inr r) \<and> devTests r = [] \<and> prodTests r = []) \<and>
   resolveContext no_git_world =
     ([ReadFile '''', Exec ''git rev-parse --abbrev-ref HEAD''],
      Inl (ExecaError ''git rev-parse --abbrev-ref HEAD'')) \<and>
   getChangedTests no_git_world =
     ([ReadFile '''', Exec ''git rev-parse --abbrev-ref HEAD''],
      Inl (ExecaError ''git rev-parse --abbrev-ref HEAD'')) \<and>
   snd (getChangedTests no_git_world) = Inl (ExecaError ''git rev-parse --abbrev-ref HEAD'') \<and>
   snd (getChangedTests branch_only_world) = Inl (ExecaError ''git remote get-url origin'') \<and>
   snd (getChangedTests canary_no_sha_world) = Inl (ExecaError ''git rev-parse HEAD'')"
proof -
  have remote: "execa offline_world ''git remote -v'' \<noteq> Rejected"
    by (simp add: offline_world_def)
  have rejected: "execa offline_world ''git fetch origin canary --depth=20'' = Rejected"
    "execa offline_world ''git diff origin/canary --name-only'' = Rejected"
    by (simp_all add: offline_world_def)
  note returns = returns_when_context_resolves [THEN conjunct1, rule_format,
      OF conjI [OF offline_world_context disjI2], OF remote]
  note throws = returns_when_context_resolves [THEN conjunct2, THEN conjunct1, rule_format,
      OF no_git_world_context]
  from returns rejected(2)
  have returned:
    "\<exists>t r. getChangedTests offline_world = (t, Inr r) \<and> devTests r = [] \<and> prodTests r = []"
    by blast
  have branch_needed:
    "needs_git no_git_world (opt_get (payload_head no_git_world) ''ref'') ''GITHUB_REF_NAME''"
    "execa no_git_world ''git rev-parse --abbrev-ref HEAD'' = Rejected"
    by code_simp+
  have remote_needed:
    "\<not> (needs_git branch_only_world (opt_get (payload_head branch_only_world) ''ref'')
          ''GITHUB_REF_NAME'' \<and>
        execa branch_only_world ''git rev-parse --abbrev-ref HEAD'' = Rejected)"
    "needs_git branch_only_world
       (opt_get (opt_get (payload_head branch_only_world) ''repo'') ''full_name'')
       ''GITHUB_REPOSITORY''"
    "execa branch_only_world ''git remote get-url origin'' = Rejected"
    by code_simp+
  have sha_needed:
    "\<not> (needs_git canary_no_sha_world (opt_get (payload_head canary_no_sha_world) ''ref'')
          ''GITHUB_REF_NAME'' \<and>
        execa canary_no_sha_world ''git rev-parse --abbrev-ref HEAD'' = Rejected)"
    "\<not> (needs_git canary_no_sha_world
          (opt_get (opt_get (payload_head canary_no_sha_world) ''repo'') ''full_name'')
          ''GITHUB_REPOSITORY'' \<and>
        execa canary_no_sha_world ''git remote get-url origin'' = Rejected)"
    "needs_git canary_no_sha_world (opt_get (payload_head canary_no_sha_world) ''sha'')
       ''GITHUB_SHA''"
    "execa canary_no_sha_world ''git rev-parse HEAD'' = Rejected"
    by code_simp+
  note branch_throws = returns_when_context_resolves
      [THEN conjunct2, THEN conjunct2, THEN conjunct1, rule_format,
       OF conjI [OF branch_needed]]
  note remote_throws = returns_when_context_resolves
      [THEN conjunct2, THEN conjunct2, THEN conjunct2, THEN conjunct1, rule_format,
       OF conjI [OF remote_needed(1) conjI [OF remote_needed(2,3)]]]
  note sha_throws = returns_when_context_resolves
      [THEN conjunct2, THEN conjunct2, THEN conjunct2, THEN conjunct2, rule_format,
       OF conjI [OF sha_needed(1) conjI [OF sha_needed(2) conjI [OF sha_needed(3,4)]]]]
  from returned show ?thesis
    by (intro conjI offline_world_context rejected remote no_git_world_context throws
          branch_throws remote_throws sha_throws)
qed

text \<open>
  C4.  Whatever a run returns, a path that after slash normalization does not match the
  pattern is in neither list, as reported or normalized.  The pattern is the regular
  expression of the script; the specification writes it as a glob, which every match of
  the regular expression satisfies (\<open>test_file_match_glob\<close>), so a path outside the glob
  is in neither list either.
\<close>

theorem unmatched_path_in_neither_list:
  assumes "getChangedTests w = (t, Inr r)"
    and "\<not> test_file_match (normalize_slashes path) \<or> \<not> test_glob (normalize_slashes path)"
  shows "path \<notin> set (devTests r) \<and> path \<notin> set (prodTests r) \<and>
         normalize_slashes path \<notin> set (devTests r) \<and>
         normalize_slashes path \<notin> set (prodTests r)"
proof -
  have no_match: "\<not> test_file_match (normalize_slashes path)"
    using assms(2) test_file_match_glob by blast
  have "\<not> (p \<in> set (devTests r) \<or> p \<in> set (prodTests r))"
    if "normalize_slashes p = normalize_slashes path" for p
  proof
    assume "p \<in> set (devTests r) \<or> p \<in> set (prodTests r)"
    from listed_paths [OF assms(1) this] that no_match show False by simp
  qed
  from this [of path] this [of "normalize_slashes path"] show ?thesis
    using normalize_slashes_no_backslash normalize_slashes_id by auto
qed

theorem unmatched_path_in_neither_list_witness:
  "\<not> test_file_match (normalize_slashes ''packages/next/README.md'') \<and>
   ''packages/next/README.md'' \<in> set (changed_files ci_world) \<and>
   ''packages/next/README.md'' \<notin> set (devTests ci_result) \<and>
   ''packages/next/README.md'' \<notin> set (prodTests ci_result)"
proof -
  have no_match: "\<not> test_file_match (normalize_slashes ''packages/next/README.md'')"
    by code_simp
  have "''packages/next/README.md'' \<in> set (changed_files ci_world)"
    by code_simp
  then show ?thesis
    using no_match unmatched_path_in_neither_list [OF ci_world_run disjI1, OF no_match]
    by simp
qed

text \<open>
  C5.  Whatever a run returns, a path whose existence check fails is in neither list,
  whether it matches the pattern, as the one of the example does, or not.
\<close>

theorem missing_file_in_neither_list:
  assumes "getChangedTests w = (t, Inr r)"
    and "\<not> fs_access w (normalize_slashes path)"
  shows "path \<notin> set (devTests r) \<and> path \<notin> set (prodTests r) \<and>
         normalize_slashes path \<notin> set (devTests r) \<and>
         normalize_slashes path \<notin> set (prodTests r)"
proof -
  have "\<not> (p \<in> set (devTests r) \<or> p \<in> set (prodTests r))"
    if "normalize_slashes p = normalize_slashes path" for p
  proof
    assume "p \<in> set (devTests r) \<or> p \<in> set (prodTests r)"
    from listed_paths [OF assms(1) this] that assms(2) show False by simp
  qed
  from this [of path] this [of "normalize_slashes path"] show ?thesis
    using normalize_slashes_no_backslash normalize_slashes_id by auto
qed

theorem missing_file_in_neither_list_witness:
  "''test/e2e/gone.test.ts'' \<in> set (changed_files ci_world) \<and>
   test_file_match (normalize_slashes ''test/e2e/gone.test.ts'') \<and>
   \<not> fs_access ci_world (normalize_slashes ''test/e2e/gone.test.ts'') \<and>
   ''test/e2e/gone.test.ts'' \<notin> set (devTests ci_result) \<and>
   ''test/e2e/gone.test.ts'' \<notin> set (prodTests ci_result)"
proof -
  have gone: "\<not> fs_access ci_world (normalize_slashes ''test/e2e/gone.test.ts'')"
    by (simp add: ci_world_def normalize_slashes_def)
  have "''test/e2e/gone.test.ts'' \<in> set (changed_files ci_world)"
    "test_file_match (normalize_slashes ''test/e2e/gone.test.ts'')"
    by code_simp+
  then show ?thesis
    using gone missing_file_in_neither_list [OF ci_world_run gone] by simp
qed

text \<open>
  C6.  The result depends on the diff's output only through its slash-normalized form:
  replacing the output by one with the same normalized form, in particular by the
  normalized output itself, changes neither the result nor the effects of the run.  In
  the example every path is reported with backslashes for its separators, and the
  lists hold the same entries, \<^verbatim>\<open>test/e2e/foo.test.ts\<close> first.
\<close>

theorem slash_normalization_invariant:
  assumes "execa w ''git diff origin/canary --name-only'' = Resolved out err"
    and "normalize_slashes out' = normalize_slashes out"
  shows "getChangedTests
           (w\<lparr>execa := (execa w)(''git diff origin/canary --name-only'' := Resolved out' err)\<rparr>) =
         getChangedTests w"
proof -
  let ?w' = "w\<lparr>execa := (execa w)(''git diff origin/canary --name-only'' := Resolved out' err)\<rparr>"
  have ctx: "resolveContext ?w' = resolveContext w"
    by (rule resolveContext_cong) simp_all
  have fetch: "fetchCanary ?w' = fetchCanary w"
    by (rule fetchCanary_cong) simp_all
  have diff: "changesResult w = ([Exec ''git diff origin/canary --name-only'', ConsoleLog], Inr (out, err))"
    "changesResult ?w' = ([Exec ''git diff origin/canary --name-only'', ConsoleLog], Inr (out', err))"
    using assms(1) by (simp_all add: changesResult_def run_execa_def)
  have "map normalize_slashes (split_lines out') = map normalize_slashes (split_lines out)"
    using assms(2) by (simp add: split_lines_normalize [symmetric])
  then have loop: "classify ?w' (split_lines out') state = classify w (split_lines out) state"
    for state
    by (rule classify_normalized) simp
  show ?thesis
    unfolding getChangedTests_def ctx fetch diff and_then_Inr prod.case loop by (rule refl)
qed

theorem slash_normalization_invariant_witness:
  "hd (split_lines ci_diff_backslashes) = ''test'' @ [BSL] @ ''e2e'' @ [BSL] @ ''foo.test.ts'' \<and>
   hd (split_lines ci_diff) = ''test/e2e/foo.test.ts'' \<and>
   execa ci_world ''git diff origin/canary --name-only'' = Resolved ci_diff '''' \<and>
   normalize_slashes ci_diff_backslashes = normalize_slashes ci_diff \<and>
   getChangedTests
     (ci_world\<lparr>execa := (execa ci_world)
        (''git diff origin/canary --name-only'' := Resolved ci_diff_backslashes '''')\<rparr>) =
   (ci_trace, Inr ci_result)"
proof -
  have lines: "hd (split_lines ci_diff_backslashes) = ''test'' @ [BSL] @ ''e2e'' @ [BSL] @ ''foo.test.ts''"
    "hd (split_lines ci_diff) = ''test/e2e/foo.test.ts''"
    by code_simp+
  have diff: "execa ci_world ''git diff origin/canary --name-only'' = Resolved ci_diff ''''"
    by (simp add: ci_world_def)
  have same: "normalize_slashes ci_diff_backslashes = normalize_slashes ci_diff"
    by code_simp
  show ?thesis
    using lines diff same slash_normalization_invariant [OF diff same] ci_world_run
    by simp
qed

text \<open>
  C7.  The handler of a failed fetch awaits \<^verbatim>\<open>git remote -v\<close> outside any \<^verbatim>\<open>try\<close> block
  (line 53).  In a directory that is no git repository, with the three variables set,
  \<^verbatim>\<open>git remote set-branches\<close> fails, \<^verbatim>\<open>git remote -v\<close> fails in the handler, and
  \<^verbatim>\<open>getChangedTests\<close> throws instead of going on to the diff.
\<close>

theorem fetch_failure_escapes:
  "getChangedTests env_only_world =
     ([ReadFile '''', Exec ''git remote set-branches --add origin canary'',
       Exec ''git remote -v''],
      Inl (ExecaError ''git remote -v''))"
  by code_simp

text \<open>
  C8.  Refinement of the fallback chain.  When context resolution completes and the
  three fields of the payload are strings or absent, each of the branch name, the remote
  URL and the commit SHA is the first non-empty value of its chain: the field of the
  payload (\<^verbatim>\<open>head.ref\<close>, \<^verbatim>\<open>head.repo.full_name\<close>, \<^verbatim>\<open>head.sha\<close>), then the variable
  (\<^verbatim>\<open>GITHUB_REF_NAME\<close>, \<^verbatim>\<open>GITHUB_REPOSITORY\<close>, \<^verbatim>\<open>GITHUB_SHA\<close>), then the output of the
  git command.  An event file that cannot be read or parsed gives the empty payload
  \<^verbatim>\<open>{}\<close> and no error.
\<close>

theorem fallback_chain:
  "(resolveContext w = (t, Inr (branchName, remoteUrl, sha)) \<and>
    string_or_absent (opt_get (payload_head w) ''ref'') \<and>
    string_or_absent (opt_get (opt_get (payload_head w) ''repo'') ''full_name'') \<and>
    string_or_absent (opt_get (payload_head w) ''sha'') \<longrightarrow>
      branchName =
        JStr (first_non_empty
          [field_string (opt_get (payload_head w) ''ref''),
           env_string w ''GITHUB_REF_NAME'',
           git_stdout w ''git rev-parse --abbrev-ref HEAD'']) \<and>
      remoteUrl =
        JStr (first_non_empty
          [field_string (opt_get (opt_get (payload_head w) ''repo'') ''full_name''),
           env_string w ''GITHUB_REPOSITORY'',
           git_stdout w ''git remote get-url origin'']) \<and>
      sha =
        JStr (first_non_empty
          [field_string (opt_get (payload_head w) ''sha''),
           env_string w ''GITHUB_SHA'',
           git_stdout w ''git rev-parse HEAD''])) \<and>
   (readFile_parse w (event_path w) = ReadError \<or>
    readFile_parse w (event_path w) = SyntaxError \<longrightarrow>
      readEventData w = ([ReadFile (event_path w)], Inr (JObj [])))"
proof (intro conjI impI)
  assume a: "resolveContext w = (t, Inr (branchName, remoteUrl, sha)) \<and>
    string_or_absent (opt_get (payload_head w) ''ref'') \<and>
    string_or_absent (opt_get (opt_get (payload_head w) ''repo'') ''full_name'') \<and>
    string_or_absent (opt_get (payload_head w) ''sha'')"
  then obtain t1 t2 t3 where
    "or_env_or_git w (opt_get (payload_head w) ''ref'')
       ''GITHUB_REF_NAME'' ''git rev-parse --abbrev-ref HEAD'' = (t1, Inr branchName)"
    "or_env_or_git w (opt_get (opt_get (payload_head w) ''repo'') ''full_name'')
       ''GITHUB_REPOSITORY'' ''git remote get-url origin'' = (t2, Inr remoteUrl)"
    "or_env_or_git w (opt_get (payload_head w) ''sha'')
       ''GITHUB_SHA'' ''git rev-parse HEAD'' = (t3, Inr sha)"
    using resolveContext_returns by blast
  with a show
    "branchName =
        JStr (first_non_empty
          [field_string (opt_get (payload_head w) ''ref''),
           env_string w ''GITHUB_REF_NAME'',
           git_stdout w ''git rev-parse --abbrev-ref HEAD''])"
    "remoteUrl =
        JStr (first_non_empty
          [field_string (opt_get (opt_get (payload_head w) ''repo'') ''full_name''),
           env_string w ''GITHUB_REPOSITORY'',
           git_stdout w ''git remote get-url origin''])"
    "sha =
        JStr (first_non_empty
          [field_string (opt_get (payload_head w) ''sha''),
           env_string w ''GITHUB_SHA'',
           git_stdout w ''git rev-parse HEAD''])"
    using or_env_or_git_first_non_empty by blast+
next
  assume "readFile_parse w (event_path w) = ReadError \<or>
    readFile_parse w (event_path w) = SyntaxError"
  then show "readEventData w = ([ReadFile (event_path w)], Inr (JObj []))"
    by (auto simp: readEventData_def event_path_def Let_def)
qed

theorem fallback_chain_witness:
  "resolveContext pr_world =
     ([ReadFile ''/event.json''],
      Inr (JStr ''my-fix'', JStr ''vercel/next.js'', JStr ''0a1b2c'')) \<and>
   first_non_empty [''my-fix'', ''12/merge'', ''''] = ''my-fix'' \<and>
   first_non_empty ['''', ''vercel/next.js'', ''''] = ''vercel/next.js'' \<and>
   first_non_empty [''0a1b2c'', '''', ''ffffff''] = ''0a1b2c'' \<and>
   JStr ''my-fix'' =
     JStr (first_non_empty
       [field_string (opt_get (payload_head pr_world) ''ref''),
        env_string pr_world ''GITHUB_REF_NAME'',
        git_stdout pr_world ''git rev-parse --abbrev-ref HEAD'']) \<and>
   JStr ''vercel/next.js'' =
     JStr (first_non_empty
       [field_string (opt_get (opt_get (payload_head pr_world) ''repo'') ''full_name''),
        env_string pr_world ''GITHUB_REPOSITORY'',
        git_stdout pr_world ''git remote get-url origin'']) \<and>
   JStr ''0a1b2c'' =
     JStr (first_non_empty
       [field_string (opt_get (payload_head pr_world) ''sha''),
        env_string pr_world ''GITHUB_SHA'',
        git_stdout pr_world ''git rev-parse HEAD'']) \<and>
   readFile_parse canary_world (event_path canary_world) = ReadError \<and>
   readEventData canary_world = ([ReadFile (event_path canary_world)], Inr (JObj []))"
proof -
  have pr_head: "payload_head pr_world = JObj [(''ref'', JStr ''my-fix''), (''sha'', JStr ''0a1b2c'')]"
    by code_simp
  have shape:
    "string_or_absent (opt_get (payload_head pr_world) ''ref'')"
    "string_or_absent (opt_get (opt_get (payload_head pr_world) ''repo'') ''full_name'')"
    "string_or_absent (opt_get (payload_head pr_world) ''sha'')"
    unfolding pr_head by (simp_all add: string_or_absent_def)
  have unreadable: "readFile_parse canary_world (event_path canary_world) = ReadError"
    by (simp add: canary_world_def)
  have firsts:
    "first_non_empty [''my-fix'', ''12/merge'', ''''] = ''my-fix''"
    "first_non_empty ['''', ''vercel/next.js'', ''''] = ''vercel/next.js''"
    "first_non_empty [''0a1b2c'', '''', ''ffffff''] = ''0a1b2c''"
    by simp_all
  note chain = fallback_chain [THEN conjunct1, rule_format,
      OF conjI [OF pr_world_context conjI [OF shape(1) conjI [OF shape(2) shape(3)]]]]
  note empty_payload = fallback_chain [THEN conjunct2, rule_format, OF disjI1, OF unreadable]
  show ?thesis
    by (intro conjI pr_world_context firsts unreadable empty_payload
          chain [THEN conjunct1] chain [THEN conjunct2, THEN conjunct1]
          chain [THEN conjunct2, THEN conjunct2])
qed

text \<open>
  C9.  In a run that gets to the diff and returns, \<open>devTests\<close> and \<open>prodTests\<close> are the
  changed paths, slashes normalized, in the order of the diff's output and with their
  repetitions, that exist, match the pattern and fall under the list's rule:
  \<^verbatim>\<open>test/e2e/\<close> or \<^verbatim>\<open>test/development\<close> for \<open>devTests\<close>, \<^verbatim>\<open>test/e2e/\<close> or \<^verbatim>\<open>test/prod\<close> for
  \<open>prodTests\<close>.  Nothing is removed as a duplicate: in the example the path that the
  diff names twice is twice in both lists.
\<close>

theorem lists_in_diff_order:
  assumes "getChangedTests w = (t, Inr r)"
    and "Exec ''git diff origin/canary --name-only'' \<in> set t"
  shows "devTests r =
           filter (\<lambda>file. fs_access w file \<and> test_file_match file \<and>
                     (startsWith file ''test/e2e/'' \<or> startsWith file ''test/development''))
             (map normalize_slashes (changed_files w)) \<and>
         prodTests r =
           filter (\<lambda>file. fs_access w file \<and> test_file_match file \<and>
                     (startsWith file ''test/e2e/'' \<or> startsWith file ''test/prod''))
             (map normalize_slashes (changed_files w))"
  using assms(1)
proof (cases rule: getChangedTests_cases)
  case (skipped t0 branchName remoteUrl sha)
  with assms(2) diff_not_in_context show ?thesis by blast
next
  case (classified t0 branchName remoteUrl sha t1 t2)
  have "(\<lambda>file. fs_access w file \<and> test_file_match file \<and>
           (startsWith file ''test/e2e/'' \<or>
            \<not> startsWith file ''test/prod'' \<and> startsWith file ''test/development'')) =
        (\<lambda>file. fs_access w file \<and> test_file_match file \<and>
           (startsWith file ''test/e2e/'' \<or> startsWith file ''test/development''))"
    using development_not_prod by blast
  with classified(5) show ?thesis by simp
qed

theorem lists_in_diff_order_witness:
  "getChangedTests ci_world = (ci_trace, Inr ci_result) \<and>
   Exec ''git diff origin/canary --name-only'' \<in> set ci_trace \<and>
   devTests ci_result =
     filter (\<lambda>file. fs_access ci_world file \<and> test_file_match file \<and>
               (startsWith file ''test/e2e/'' \<or> startsWith file ''test/development''))
       (map normalize_slashes (changed_files ci_world)) \<and>
   prodTests ci_result =
     filter (\<lambda>file. fs_access ci_world file \<and> test_file_match file \<and>
               (startsWith file ''test/e2e/'' \<or> startsWith file ''test/prod''))
       (map normalize_slashes (changed_files ci_world)) \<and>
   devTests ci_result =
     [''test/e2e/foo.test.ts'', ''test/e2e/foo.test.ts'',
      ''test/development/baz.test.tsx'', ''test/developments/y.test.ts''] \<and>
   prodTests ci_result =
     [''test/e2e/foo.test.ts'', ''test/e2e/foo.test.ts'',
      ''test/prod/bar.test.js'', ''test/production/x.test.ts'']"
proof -
  have run: "getChangedTests ci_world = (ci_trace, Inr ci_result)"
    by (rule ci_world_run)
  have diff: "Exec ''git diff origin/canary --name-only'' \<in> set ci_trace"
    by (simp add: ci_trace_def)
  show ?thesis
    using run diff lists_in_diff_order [OF run diff] by (simp add: ci_result_def)
qed

text \<open>
  C10.  The rules for \<open>prodTests\<close> and \<open>devTests\<close> test a prefix of the string and ask
  for no separator after it: an existing changed path that matches the pattern and
  starts with \<^verbatim>\<open>test/prod\<close>, such as \<^verbatim>\<open>test/production/x.test.ts\<close>, is in \<open>prodTests\<close>,
  and one that starts with \<^verbatim>\<open>test/development\<close>, such as
  \<^verbatim>\<open>test/developments/y.test.ts\<close>, is in \<open>devTests\<close>.
\<close>

theorem prefix_without_separator:
  assumes "getChangedTests w = (t, Inr r)"
    and "Exec ''git diff origin/canary --name-only'' \<in> set t"
    and "file \<in> set (map normalize_slashes (changed_files w))"
    and "fs_access w file"
    and "test_file_match file"
  shows "(startsWith file ''test/prod'' \<longrightarrow> file \<in> set (prodTests r)) \<and>
         (startsWith file ''test/development'' \<longrightarrow> file \<in> set (devTests r))"
  using assms(1)
proof (cases rule: getChangedTests_cases)
  case (skipped t0 branchName remoteUrl sha)
  with assms(2) diff_not_in_context show ?thesis by blast
next
  case (classified t0 branchName remoteUrl sha t1 t2)
  with assms(3-5) development_not_prod show ?thesis by auto
qed

theorem prefix_without_separator_witness:
  "startsWith ''test/production/x.test.ts'' ''test/prod'' \<and>
   ''test/production/x.test.ts'' \<in> set (prodTests ci_result) \<and>
   startsWith ''test/developments/y.test.ts'' ''test/development'' \<and>
   ''test/developments/y.test.ts'' \<in> set (devTests ci_result)"
proof -
  have diff: "Exec ''git diff origin/canary --name-only'' \<in> set ci_trace"
    by (simp add: ci_trace_def)
  note rule = prefix_without_separator [OF ci_world_run diff]
  have changed:
    "''test/production/x.test.ts'' \<in> set (map normalize_slashes (changed_files ci_world))"
    "''test/developments/y.test.ts'' \<in> set (map normalize_slashes (changed_files ci_world))"
    unfolding ci_world_changed_files by simp_all
  have exist:
    "fs_access ci_world ''test/production/x.test.ts''"
    "fs_access ci_world ''test/developments/y.test.ts''"
    by (simp_all add: ci_world_def)
  have match:
    "test_file_match ''test/production/x.test.ts''"
    "test_file_match ''test/developments/y.test.ts''"
    by code_simp+
  show ?thesis
    using rule [OF changed(1) exist(1) match(1)] rule [OF changed(2) exist(2) match(2)]
    by simp
qed

end
